theory Spec2Isabelle
  imports Complex_Main
begin

section \<open>Data model (types/game.ts)\<close>

text \<open>
  A TypeScript \<open>number\<close> is modelled as a \<open>real\<close>; a value that \<open>Math.floor\<close> has
  produced, and the level of a character (created as a whole number and only ever
  incremented), is an \<open>int\<close>. The rounding of IEEE doubles is modelled where a
  result depends on it (see \<open>toDouble\<close> below): in \<open>calculateSellPrice\<close> and in
  \<open>scaleEnemyToLevel\<close>; elsewhere the arithmetic is exact. An optional
  field \<open>f?: T\<close> is a \<open>T option\<close>, \<open>None\<close> standing for \<open>undefined\<close>. An inventory slot
  is an \<open>Item option\<close>, \<open>None\<close> standing for \<open>null\<close>.

  Field names that several interfaces share (\<open>id\<close>, \<open>name\<close>, \<open>type\<close>, \<open>value\<close>,
  \<open>description\<close>, the four stat names) carry the interface as a prefix.
\<close>

datatype ItemType = WEAPON | ARMOR | CONSUMABLE | TREASURE | QUEST

datatype ItemRarity = COMMON | UNCOMMON | RARE | EPIC | LEGENDARY

datatype StatusEffectType =
  POISON | GROWTH | ENCHANT_ATTACK | ENCHANT_DEFENSE | ENCHANT_SPEED | STUN | REGENERATION

datatype CombatPhase = ATTACK | DEFEND | EFFECT | REWARD | ENDED

datatype Turn = PLAYER | ENEMY

datatype LogType = LogDamage | LogHeal | LogEffect | LogInfo

record Position =
  pos_x :: real
  pos_y :: real

record ItemStats =
  stat_attack :: "real option"
  stat_defense :: "real option"
  stat_speed :: "real option"
  stat_health :: "real option"

record Item =
  item_id :: string
  item_name :: string
  item_type :: ItemType
  rarity :: ItemRarity
  stats :: "ItemStats option"
  durability :: "real option"
  maxDurability :: "real option"
  item_value :: real
  item_description :: string

record Inventory =
  items :: "Item option list"
  maxSlots :: real

record StatusEffect =
  effect_id :: string
  effect_name :: string
  effect_type :: StatusEffectType
  duration :: real
  power :: real
  effect_description :: string

record Character =
  char_id :: string
  char_name :: string
  health :: real
  maxHealth :: real
  attack :: real
  defense :: real
  speed :: real
  level :: int
  experience :: real
  experienceToNext :: real
  gold :: real
  inventory :: Inventory
  statusEffects :: "StatusEffect list"
  position :: Position

record CombatLogEntry =
  message :: string
  log_type :: LogType
  timestamp :: real

record CombatState =
  player :: Character
  enemy :: Character
  turn :: Turn
  phase :: CombatPhase
  turnCount :: int
  combatLog :: "CombatLogEntry list"
  isActive :: bool

record DamageResult =
  damage :: int
  isCritical :: bool
  dodged :: bool
  blocked :: bool

record StatsGained =
  gained_health :: real
  gained_attack :: real
  gained_defense :: real
  gained_speed :: real

record LevelUpResult =
  newLevel :: int
  statsGained :: StatsGained

record TreasureChest =
  chest_id :: string
  chest_position :: Position
  chest_items :: "Item list"
  chest_gold :: real
  opened :: bool

text \<open>
  The host environment the code calls into is a parameter of the model: the sequence
  of values \<open>Math.random()\<close> returns (the \<open>k\<close>-th call returns \<open>random h k\<close>; every
  function that draws takes the number of draws made so far and returns the new
  count), the value of \<open>Date.now()\<close> (taken as constant during one call of the
  engine) and the conversion of a number to text in a template literal.
\<close>

record Host =
  random :: "nat \<Rightarrow> real"
  dateNow :: real
  numToString :: "real \<Rightarrow> string"

section \<open>Double arithmetic\<close>

text \<open>
  Where a result of the program depends on the rounding of its arithmetic
  (\<open>calculateSellPrice\<close>, \<open>scaleEnemyToLevel\<close>), every operation that can be inexact
  is followed by \<open>toDouble\<close>, the rounding of a real to the nearest number with a
  53-bit significand, ties going to the even significand, as IEEE 754 binary64
  does. The exponent is not bounded: overflow to \<open>Infinity\<close> and the coarser
  spacing of subnormal numbers are not modelled.
\<close>

definition roundEven :: "real \<Rightarrow> int" where
  "roundEven y =
     (let f = \<lfloor>y\<rfloor>; r = y - of_int f
      in if r < 1 / 2 then f else if 1 / 2 < r then f + 1 else if even f then f else f + 1)"

definition toDouble :: "real \<Rightarrow> real" where
  "toDouble x =
     (if x = 0 then 0
      else (let ulp = 2 powr of_int (\<lfloor>log 2 \<bar>x\<bar>\<rfloor> - 52)
            in of_int (roundEven (x / ulp)) * ulp))"

section \<open>Array helpers\<close>

text \<open>\<open>Array.prototype.findIndex\<close>: the first index whose element satisfies the
  predicate; \<open>None\<close> stands for the result \<open>-1\<close>.\<close>

fun findIndex :: "('a \<Rightarrow> bool) \<Rightarrow> 'a list \<Rightarrow> nat option" where
  "findIndex p [] = None"
| "findIndex p (a # as) =
     (if p a then Some 0 else (case findIndex p as of None \<Rightarrow> None | Some i \<Rightarrow> Some (Suc i)))"

text \<open>\<open>items.find(item => item?.... )\<close>: the first item of the slots that satisfies
  the predicate; an empty slot never does (\<open>item?.f\<close> is \<open>undefined\<close> there).\<close>

fun findItem :: "(Item \<Rightarrow> bool) \<Rightarrow> Item option list \<Rightarrow> Item option" where
  "findItem p [] = None"
| "findItem p (None # slots) = findItem p slots"
| "findItem p (Some item # slots) = (if p item then Some item else findItem p slots)"

text \<open>The predicate \<open>item?.f ...\<close> on a slot.\<close>

definition onItem :: "(Item \<Rightarrow> bool) \<Rightarrow> Item option \<Rightarrow> bool" where
  "onItem p slot = (case slot of None \<Rightarrow> False | Some item \<Rightarrow> p item)"

section \<open>StatusEffectManager (game/effects/StatusEffectManager.ts)\<close>

definition sameEffect :: "StatusEffect \<Rightarrow> StatusEffect \<Rightarrow> bool" where
  "sameEffect effect e = (effect_type e = effect_type effect \<and> effect_name e = effect_name effect)"

text \<open>The three bodies of the \<open>switch\<close> of \<open>applyEffect\<close> that update the existing
  effect in place.\<close>

definition stackPower :: "StatusEffect \<Rightarrow> StatusEffect \<Rightarrow> StatusEffect" where
  "stackPower existingEffect effect =
     existingEffect\<lparr> power := power existingEffect + power effect,
                      duration := max (duration existingEffect) (duration effect) \<rparr>"

definition replaceIfStronger :: "StatusEffect \<Rightarrow> StatusEffect \<Rightarrow> StatusEffect" where
  "replaceIfStronger existingEffect effect =
     (if power effect > power existingEffect
      then existingEffect\<lparr> power := power effect, duration := duration effect \<rparr>
      else existingEffect\<lparr> duration := max (duration existingEffect) (duration effect) \<rparr>)"

definition refreshDuration :: "StatusEffect \<Rightarrow> StatusEffect \<Rightarrow> StatusEffect" where
  "refreshDuration existingEffect effect =
     existingEffect\<lparr> duration := max (duration existingEffect) (duration effect) \<rparr>"

definition applyEffect :: "Character \<Rightarrow> StatusEffect \<Rightarrow> Character" where
  "applyEffect character effect =
     (case findIndex (sameEffect effect) (statusEffects character) of
        Some existingEffectIndex \<Rightarrow>
          (let existingEffect = statusEffects character ! existingEffectIndex;
               update = (\<lambda>e. character\<lparr> statusEffects :=
                           (statusEffects character)[existingEffectIndex := e] \<rparr>)
           in case effect_type effect of
                POISON \<Rightarrow> update (stackPower existingEffect effect)
              | REGENERATION \<Rightarrow> update (stackPower existingEffect effect)
              | ENCHANT_ATTACK \<Rightarrow> update (replaceIfStronger existingEffect effect)
              | ENCHANT_DEFENSE \<Rightarrow> update (replaceIfStronger existingEffect effect)
              | ENCHANT_SPEED \<Rightarrow> update (replaceIfStronger existingEffect effect)
              | STUN \<Rightarrow> update (refreshDuration existingEffect effect)
              | GROWTH \<Rightarrow> character\<lparr> statusEffects := statusEffects character @ [effect] \<rparr>)
      | None \<Rightarrow> character\<lparr> statusEffects := statusEffects character @ [effect] \<rparr>)"

definition hasEffectType :: "Character \<Rightarrow> StatusEffectType \<Rightarrow> bool" where
  "hasEffectType character t = (\<exists>e \<in> set (statusEffects character). effect_type e = t)"


definition createPoison :: "Host \<Rightarrow> real \<Rightarrow> real \<Rightarrow> StatusEffect" where
  "createPoison h p d =
     \<lparr> effect_id = ''poison-'' @ numToString h (dateNow h), effect_name = ''Poison'',
       effect_type = POISON, duration = d, power = p,
       effect_description = ''Takes '' @ numToString h p @ '' damage per turn'' \<rparr>"

definition createRegeneration :: "Host \<Rightarrow> real \<Rightarrow> real \<Rightarrow> StatusEffect" where
  "createRegeneration h p d =
     \<lparr> effect_id = ''regen-'' @ numToString h (dateNow h), effect_name = ''Regeneration'',
       effect_type = REGENERATION, duration = d, power = p,
       effect_description = ''Heals '' @ numToString h p @ '' health per turn'' \<rparr>"

definition createStun :: "Host \<Rightarrow> real \<Rightarrow> StatusEffect" where
  "createStun h d =
     \<lparr> effect_id = ''stun-'' @ numToString h (dateNow h), effect_name = ''Stun'',
       effect_type = STUN, duration = d, power = 0,
       effect_description = ''Cannot act for '' @ numToString h d @ '' turn(s)'' \<rparr>"

definition createGrowth :: "Host \<Rightarrow> real \<Rightarrow> StatusEffect" where
  "createGrowth h d =
     \<lparr> effect_id = ''growth-'' @ numToString h (dateNow h), effect_name = ''Growth'',
       effect_type = GROWTH, duration = d, power = 1,
       effect_description = ''Permanently gain +2 HP and +1 ATK per turn'' \<rparr>"

definition createAttackBoost :: "Host \<Rightarrow> real \<Rightarrow> real \<Rightarrow> StatusEffect" where
  "createAttackBoost h p d =
     \<lparr> effect_id = ''atk-boost-'' @ numToString h (dateNow h), effect_name = ''Attack Boost'',
       effect_type = ENCHANT_ATTACK, duration = d, power = p,
       effect_description = ''+'' @ numToString h p @ '' attack power'' \<rparr>"

definition createDefenseBoost :: "Host \<Rightarrow> real \<Rightarrow> real \<Rightarrow> StatusEffect" where
  "createDefenseBoost h p d =
     \<lparr> effect_id = ''def-boost-'' @ numToString h (dateNow h), effect_name = ''Defense Boost'',
       effect_type = ENCHANT_DEFENSE, duration = d, power = p,
       effect_description = ''+'' @ numToString h p @ '' defense'' \<rparr>"

definition createSpeedBoost :: "Host \<Rightarrow> real \<Rightarrow> real \<Rightarrow> StatusEffect" where
  "createSpeedBoost h p d =
     \<lparr> effect_id = ''spd-boost-'' @ numToString h (dateNow h), effect_name = ''Speed Boost'',
       effect_type = ENCHANT_SPEED, duration = d, power = p,
       effect_description = ''+'' @ numToString h p @ '' speed'' \<rparr>"

subsection \<open>processTurnEffects\<close>

record TurnEffectResult =
  res_effect :: StatusEffect
  res_result :: string
  res_value :: real

text \<open>
  The \<open>switch\<close> of the filter callback: the consequence of one effect on the
  character, and the entry it pushes onto \<open>results\<close> (none for the enchantments).
  The entry holds the effect object itself, whose duration the callback decrements
  afterwards, so the caller reads the decremented effect \<open>e'\<close> in it.
\<close>

definition effectConsequence ::
  "Host \<Rightarrow> Character \<Rightarrow> StatusEffect \<Rightarrow> StatusEffect \<Rightarrow> Character \<times> TurnEffectResult list" where
  "effectConsequence h character effect e' =
     (case effect_type effect of
        POISON \<Rightarrow>
          (let poisonDamage = power effect
           in (character\<lparr> health := max 0 (health character - poisonDamage) \<rparr>,
               [\<lparr> res_effect = e',
                  res_result = ''takes '' @ numToString h poisonDamage @ '' poison damage'',
                  res_value = - poisonDamage \<rparr>]))
      | REGENERATION \<Rightarrow>
          (let healAmount = power effect;
               actualHeal = min healAmount (maxHealth character - health character)
           in (character\<lparr> health := health character + actualHeal \<rparr>,
               [\<lparr> res_effect = e',
                  res_result = ''regenerates '' @ numToString h actualHeal @ '' health'',
                  res_value = actualHeal \<rparr>]))
      | GROWTH \<Rightarrow>
          (character\<lparr> maxHealth := maxHealth character + 2,
                       health := health character + 2,
                       attack := attack character + 1 \<rparr>,
           [\<lparr> res_effect = e', res_result = ''grows stronger! +2 HP, +1 ATK'', res_value = 2 \<rparr>])
      | STUN \<Rightarrow>
          (character,
           [\<lparr> res_effect = e', res_result = ''is stunned and cannot act!'', res_value = 0 \<rparr>])
      | ENCHANT_ATTACK \<Rightarrow> (character, [])
      | ENCHANT_DEFENSE \<Rightarrow> (character, [])
      | ENCHANT_SPEED \<Rightarrow> (character, []))"

text \<open>The filter over the effects, left to right: the character as the callbacks have
  changed it, the effects kept and the results pushed.\<close>

fun processTurnEffects_filter ::
  "Host \<Rightarrow> Character \<Rightarrow> StatusEffect list \<Rightarrow> Character \<times> StatusEffect list \<times> TurnEffectResult list" where
  "processTurnEffects_filter h character [] = (character, [], [])"
| "processTurnEffects_filter h character (effect # rest) =
     (let e' = effect\<lparr> duration := duration effect - 1 \<rparr>;
          (c1, pushed) = effectConsequence h character effect e';
          keepEffect = \<not> duration e' \<le> 0;
          expired = (if keepEffect then []
                     else [\<lparr> res_effect = e',
                             res_result = effect_name e' @ '' has worn off'',
                             res_value = 0 \<rparr>]);
          (c2, kept, results) = processTurnEffects_filter h c1 rest
      in (c2, (if keepEffect then e' # kept else kept), pushed @ expired @ results))"

definition processTurnEffects :: "Host \<Rightarrow> Character \<Rightarrow> Character \<times> TurnEffectResult list" where
  "processTurnEffects h character =
     (let (c, kept, results) = processTurnEffects_filter h character (statusEffects character)
      in (c\<lparr> statusEffects := kept \<rparr>, results))"

section \<open>InventoryManager (in game/effects/StatusEffectManager.ts)\<close>

definition addItem :: "Inventory \<Rightarrow> Item \<Rightarrow> Inventory \<times> bool" where
  "addItem invt item =
     (case findIndex (\<lambda>slot. slot = None) (items invt) of
        None \<Rightarrow> (invt, False)
      | Some emptySlotIndex \<Rightarrow> (invt\<lparr> items := (items invt)[emptySlotIndex := Some item] \<rparr>, True))"



section \<open>CombatEngine (game/combat/CombatEngine.ts)\<close>

datatype ActionType = Attack | Defend | UseItem | Flee

datatype Target = Self | Enemy

record CombatAction =
  action_type :: ActionType
  target :: "Target option"
  itemId :: "string option"

text \<open>
  The engine owns one \<open>CombatState\<close> and mutates it; the model passes the state
  through. The two combatants are taken to own their inventory and effect arrays
  separately. \<open>attacker\<close>/\<open>defender\<close>/\<open>user\<close> are references into the state, chosen
  by \<open>turn\<close>: \<open>currentOf\<close> reads the combatant whose turn it is, \<open>otherOf\<close> the
  opponent, \<open>updCurrent\<close> and \<open>updOther\<close> write through the reference.
\<close>

definition currentOf :: "CombatState \<Rightarrow> Character" where
  "currentOf s = (if turn s = PLAYER then player s else enemy s)"

definition otherOf :: "CombatState \<Rightarrow> Character" where
  "otherOf s = (if turn s = PLAYER then enemy s else player s)"

definition updCurrent :: "(Character \<Rightarrow> Character) \<Rightarrow> CombatState \<Rightarrow> CombatState" where
  "updCurrent f s = (if turn s = PLAYER then s\<lparr> player := f (player s) \<rparr>
                     else s\<lparr> enemy := f (enemy s) \<rparr>)"

definition updOther :: "(Character \<Rightarrow> Character) \<Rightarrow> CombatState \<Rightarrow> CombatState" where
  "updOther f s = (if turn s = PLAYER then s\<lparr> enemy := f (enemy s) \<rparr>
                   else s\<lparr> player := f (player s) \<rparr>)"

definition addLogEntry :: "Host \<Rightarrow> string \<Rightarrow> LogType \<Rightarrow> CombatState \<Rightarrow> CombatState" where
  "addLogEntry h msg t s =
     s\<lparr> combatLog := combatLog s @ [\<lparr> message = msg, log_type = t, timestamp = dateNow h \<rparr>] \<rparr>"

definition determineFirstTurn :: "Host \<Rightarrow> nat \<Rightarrow> Character \<Rightarrow> Character \<Rightarrow> nat \<times> Turn" where
  "determineFirstTurn h k p e =
     (let playerSpeed = speed p + random h k * 10;
          enemySpeed = speed e + random h (k + 1) * 10
      in (k + 2, if playerSpeed \<ge> enemySpeed then PLAYER else ENEMY))"

definition newCombatEngine :: "Host \<Rightarrow> nat \<Rightarrow> Character \<Rightarrow> Character \<Rightarrow> nat \<times> CombatState" where
  "newCombatEngine h k p e =
     (let (k', first) = determineFirstTurn h k p e;
          s0 = \<lparr> player = p, enemy = e, turn = first, phase = ATTACK, turnCount = 1,
                 combatLog = [], isActive = True \<rparr>;
          s1 = addLogEntry h (''Combat started! '' @ char_name p @ '' vs '' @ char_name e) LogInfo s0;
          s2 = addLogEntry h ((if turn s1 = PLAYER then char_name p else char_name e) @ '' goes first!'')
                 LogInfo s1
      in (k', s2))"

subsection \<open>calculateDamage\<close>

text \<open>\<open>item.durability && item.durability > 0\<close>.\<close>

definition hasDurabilityLeft :: "Item \<Rightarrow> bool" where
  "hasDurabilityLeft item = (case durability item of None \<Rightarrow> False | Some d \<Rightarrow> d \<noteq> 0 \<and> d > 0)"

text \<open>\<open>item?.stats?.f\<close> for an item that \<open>find\<close> returned (or \<open>undefined\<close>).\<close>

definition optionalStat :: "(ItemStats \<Rightarrow> real option) \<Rightarrow> Item option \<Rightarrow> real option" where
  "optionalStat f found =
     (case found of None \<Rightarrow> None
      | Some item \<Rightarrow> (case stats item of None \<Rightarrow> None | Some st \<Rightarrow> f st))"

text \<open>\<open>if (item?.stats?.f) total += item.stats.f\<close>.\<close>

definition addStat :: "real \<Rightarrow> real option \<Rightarrow> real" where
  "addStat acc v = (case v of None \<Rightarrow> acc | Some a \<Rightarrow> if a \<noteq> 0 then acc + a else acc)"

text \<open>
  \<open>Math.random() < n / d * c\<close> for a positive constant \<open>c\<close>, as JavaScript evaluates
  it: a division by zero gives \<open>Infinity\<close> for a positive \<open>n\<close>, \<open>-Infinity\<close> for a
  negative one and \<open>NaN\<close> for zero, and a comparison with \<open>NaN\<close> is false.
\<close>

definition rollBelowRatio :: "real \<Rightarrow> real \<Rightarrow> real \<Rightarrow> real \<Rightarrow> bool" where
  "rollBelowRatio roll n d c = (if d = 0 then 0 < n else roll < n / d * c)"

definition enchantSum :: "StatusEffectType \<Rightarrow> Character \<Rightarrow> real" where
  "enchantSum t character =
     foldl (\<lambda>sum e. sum + power e) 0 (filter (\<lambda>e. effect_type e = t) (statusEffects character))"

text \<open>\<open>damage\<close> and \<open>defense\<close> as \<open>calculateDamage\<close> has them before the rolls.\<close>

definition rawDamage :: "Character \<Rightarrow> real" where
  "rawDamage attacker =
     (let weapon = findItem (\<lambda>item. item_type item = WEAPON \<and> hasDurabilityLeft item)
                     (items (inventory attacker));
          dmg = addStat (attack attacker) (optionalStat stat_attack weapon);
          attackBoost = enchantSum ENCHANT_ATTACK attacker
      in dmg + attackBoost)"

definition totalDefense :: "Character \<Rightarrow> real" where
  "totalDefense defender =
     (let armor = findItem (\<lambda>item. item_type item = ARMOR \<and> hasDurabilityLeft item)
                    (items (inventory defender));
          def = addStat (defense defender) (optionalStat stat_defense armor);
          defenseBoost = enchantSum ENCHANT_DEFENSE defender
      in def + defenseBoost)"

definition calculateDamage :: "Host \<Rightarrow> nat \<Rightarrow> Character \<Rightarrow> Character \<Rightarrow> nat \<times> DamageResult" where
  "calculateDamage h k attacker defender =
     (let dmg = rawDamage attacker;
          def = totalDefense defender
      in if rollBelowRatio (random h k) (speed defender) (speed defender + speed attacker) 0.2
         then (k + 1, \<lparr> damage = 0, isCritical = False, dodged = True, blocked = False \<rparr>)
         else if rollBelowRatio (random h (k + 1)) def (def + dmg) 0.15
         then (k + 2, \<lparr> damage = 0, isCritical = False, dodged = False, blocked = True \<rparr>)
         else
           (let critChance = 0.1 + speed attacker / 100;
                crit = random h (k + 2) < critChance;
                dmg' = (if crit then dmg * 1.5 else dmg);
                finalDamage = max 1 \<lfloor>dmg' - def * 0.5\<rfloor>
            in (k + 3, \<lparr> damage = finalDamage, isCritical = crit, dodged = False,
                          blocked = False \<rparr>)))"

subsection \<open>The four actions\<close>

text \<open>\<open>weapon.durability--\<close> on the item \<open>find\<close> returned: the first slot that holds
  a weapon with durability left.\<close>

definition decDurability :: "Item \<Rightarrow> Item" where
  "decDurability item =
     item\<lparr> durability := (case durability item of None \<Rightarrow> None | Some d \<Rightarrow> Some (d - 1)) \<rparr>"

definition applyWeaponDurabilityLoss :: "Host \<Rightarrow> CombatState \<Rightarrow> CombatState" where
  "applyWeaponDurabilityLoss h s =
     (let attacker = currentOf s;
          slots = items (inventory attacker)
      in case findIndex (onItem (\<lambda>item. item_type item = WEAPON \<and> hasDurabilityLeft item)) slots of
           None \<Rightarrow> s
         | Some i \<Rightarrow>
             (case slots ! i of
                None \<Rightarrow> s
              | Some weapon \<Rightarrow>
                  (let weapon' = decDurability weapon;
                       s1 = updCurrent (\<lambda>c. c\<lparr> inventory :=
                              (inventory c)\<lparr> items := slots[i := Some weapon'] \<rparr> \<rparr>) s
                   in case durability weapon' of
                        None \<Rightarrow> s1
                      | Some d \<Rightarrow>
                          if d \<le> 0 then addLogEntry h (item_name weapon' @ '' has broken!'') LogInfo s1
                          else if d \<le> 5 then
                            addLogEntry h (item_name weapon' @ '' is about to break! ('' @
                              numToString h d @ '' uses left)'') LogInfo s1
                          else s1)))"

definition handleAttack :: "Host \<Rightarrow> nat \<Rightarrow> CombatState \<Rightarrow> nat \<times> CombatState" where
  "handleAttack h k s =
     (let attacker = currentOf s;
          defender = otherOf s;
          (k', result) = calculateDamage h k attacker defender
      in if dodged result then
           (k', addLogEntry h (char_name defender @ '' dodged the attack!'') LogInfo s)
         else if blocked result then
           (k', addLogEntry h (char_name defender @ '' blocked the attack!'') LogInfo s)
         else
           (let s1 = updOther (\<lambda>d. d\<lparr> health := max 0 (health d - of_int (damage result)) \<rparr>) s;
                critText = (if isCritical result then '' Critical hit!'' else '''');
                s2 = addLogEntry h
                       (char_name attacker @ '' deals '' @ numToString h (of_int (damage result)) @
                        '' damage to '' @ char_name defender @ ''!'' @ critText) LogDamage s1
            in (k', applyWeaponDurabilityLoss h s2)))"

definition defendBoost :: "Character \<Rightarrow> StatusEffect" where
  "defendBoost defender =
     \<lparr> effect_id = ''defend-boost'', effect_name = ''Defensive Stance'',
       effect_type = ENCHANT_DEFENSE, duration = 1,
       power = of_int \<lfloor>defense defender * 0.5\<rfloor>,
       effect_description = ''Increased defense from defending'' \<rparr>"

definition handleDefend :: "Host \<Rightarrow> CombatState \<Rightarrow> CombatState" where
  "handleDefend h s =
     (let defender = currentOf s;
          healAmount = \<lfloor>maxHealth defender * 0.05\<rfloor>;
          s1 = updCurrent (\<lambda>c. c\<lparr> health := min (maxHealth c) (health c + of_int healAmount) \<rparr>) s;
          s2 = addLogEntry h (char_name defender @ '' defends and recovers '' @
                 numToString h (of_int healAmount) @ '' health!'') LogHeal s1
      in updCurrent (\<lambda>c. c\<lparr> statusEffects := statusEffects c @ [defendBoost c] \<rparr>) s2)"

text \<open>One \<open>if (item.stats.f)\<close> block of \<open>applyConsumableEffect\<close> for a stat that
  becomes a three-turn enchantment.\<close>

definition pushBoost ::
  "Host \<Rightarrow> Item \<Rightarrow> real option \<Rightarrow> string \<Rightarrow> string \<Rightarrow> StatusEffectType \<Rightarrow> CombatState \<Rightarrow> CombatState" where
  "pushBoost h item v stat title t s =
     (case v of
        None \<Rightarrow> s
      | Some a \<Rightarrow>
          if a \<noteq> 0 then
            (let user = currentOf s;
                 s1 = updCurrent (\<lambda>c. c\<lparr> statusEffects := statusEffects c @
                        [\<lparr> effect_id = ''boost-'' @ stat @ ''-'' @ numToString h (dateNow h),
                           effect_name = title, effect_type = t, duration = 3, power = a,
                           effect_description = ''+'' @ numToString h a @ '' '' @ stat @ '' from '' @
                             item_name item \<rparr>] \<rparr>) s
             in addLogEntry h (char_name user @ '' gains +'' @ numToString h a @ '' '' @ stat @ ''!'')
                  LogEffect s1)
          else s)"

definition applyConsumableEffect :: "Host \<Rightarrow> Item \<Rightarrow> CombatState \<Rightarrow> CombatState" where
  "applyConsumableEffect h item s =
     (case stats item of
        None \<Rightarrow> s
      | Some st \<Rightarrow>
          (let user = currentOf s;
               s1 = (case stat_health st of
                       None \<Rightarrow> s
                     | Some healAmount \<Rightarrow>
                         if healAmount \<noteq> 0 then
                           addLogEntry h (char_name user @ '' uses '' @ item_name item @ '' and heals '' @
                               numToString h healAmount @ '' health!'') LogHeal
                             (updCurrent (\<lambda>c. c\<lparr> health := min (maxHealth c) (health c + healAmount) \<rparr>) s)
                         else s);
               s2 = pushBoost h item (stat_attack st) ''attack'' ''Attack Boost'' ENCHANT_ATTACK s1;
               s3 = pushBoost h item (stat_defense st) ''defense'' ''Defense Boost'' ENCHANT_DEFENSE s2
           in pushBoost h item (stat_speed st) ''speed'' ''Speed Boost'' ENCHANT_SPEED s3))"

definition handleItemUse :: "Host \<Rightarrow> CombatState \<Rightarrow> string \<Rightarrow> CombatState" where
  "handleItemUse h s wanted =
     (let user = currentOf s;
          slots = items (inventory user)
      in case findIndex (onItem (\<lambda>item. item_id item = wanted)) slots of
           None \<Rightarrow> addLogEntry h ''Item not found!'' LogInfo s
         | Some itemIndex \<Rightarrow>
             (case slots ! itemIndex of
                None \<Rightarrow> addLogEntry h ''Item not found!'' LogInfo s
              | Some item \<Rightarrow>
                  if item_type item = CONSUMABLE then
                    updCurrent (\<lambda>c. c\<lparr> inventory :=
                        (inventory c)\<lparr> items := (items (inventory c))[itemIndex := None] \<rparr> \<rparr>)
                      (applyConsumableEffect h item s)
                  else s))"

definition handleFlee :: "Host \<Rightarrow> nat \<Rightarrow> CombatState \<Rightarrow> nat \<times> CombatState" where
  "handleFlee h k s =
     (let fleeing = currentOf s;
          speedDiff = speed fleeing - speed (otherOf s);
          fleeChance = 0.3 + max 0 (speedDiff * 0.05)
      in if random h k < fleeChance then
           (k + 1, (addLogEntry h (char_name fleeing @ '' fled from battle!'') LogInfo s)
                     \<lparr> isActive := False, phase := ENDED \<rparr>)
         else (k + 1, addLogEntry h (char_name fleeing @ '' couldn't escape!'') LogInfo s))"

subsection \<open>Turn-start status processing\<close>

text \<open>The filter of \<open>applyStatusEffects\<close> over the effects of the combatant whose turn
  it is, left to right: the state as the callbacks have changed it, and the effects
  kept.\<close>

fun applyStatusEffects_filter ::
  "Host \<Rightarrow> CombatState \<Rightarrow> StatusEffect list \<Rightarrow> CombatState \<times> StatusEffect list" where
  "applyStatusEffects_filter h s [] = (s, [])"
| "applyStatusEffects_filter h s (effect # rest) =
     (let character = currentOf s;
          s1 = (case effect_type effect of
                  POISON \<Rightarrow>
                    addLogEntry h (char_name character @ '' takes '' @ numToString h (power effect) @
                        '' poison damage!'') LogDamage
                      (updCurrent (\<lambda>c. c\<lparr> health := max 0 (health c - power effect) \<rparr>) s)
                | REGENERATION \<Rightarrow>
                    addLogEntry h (char_name character @ '' regenerates '' @
                        numToString h (power effect) @ '' health!'') LogHeal
                      (updCurrent (\<lambda>c. c\<lparr> health := min (maxHealth c) (health c + power effect) \<rparr>) s)
                | STUN \<Rightarrow>
                    (addLogEntry h (char_name character @ '' is stunned and cannot act!'') LogEffect s)
                      \<lparr> phase := DEFEND \<rparr>
                | _ \<Rightarrow> s);
          e' = effect\<lparr> duration := duration effect - 1 \<rparr>;
          (s2, kept) = applyStatusEffects_filter h s1 rest
      in (s2, if duration e' > 0 then e' # kept else kept))"

definition applyStatusEffects :: "Host \<Rightarrow> CombatState \<Rightarrow> CombatState" where
  "applyStatusEffects h s =
     (let (s', kept) = applyStatusEffects_filter h s (statusEffects (currentOf s))
      in updCurrent (\<lambda>c. c\<lparr> statusEffects := kept \<rparr>) s')"

subsection \<open>executeAction\<close>

definition checkCombatEnd :: "Host \<Rightarrow> CombatState \<Rightarrow> CombatState" where
  "checkCombatEnd h s =
     (if health (player s) \<le> 0 then
        (addLogEntry h (char_name (player s) @ '' has been defeated!'') LogInfo s)
          \<lparr> isActive := False, phase := ENDED \<rparr>
      else if health (enemy s) \<le> 0 then
        (addLogEntry h (char_name (enemy s) @ '' has been defeated!'') LogInfo s)
          \<lparr> isActive := False, phase := REWARD \<rparr>
      else s)"

definition progressTurn :: "CombatState \<Rightarrow> CombatState" where
  "progressTurn s =
     (if phase s = ATTACK then s\<lparr> phase := DEFEND \<rparr>
      else s\<lparr> turn := (if turn s = PLAYER then ENEMY else PLAYER), phase := ATTACK,
              turnCount := turnCount s + 1 \<rparr>)"

text \<open>\<open>if (action.itemId)\<close>: an absent or empty item id is falsy.\<close>

definition dispatch :: "Host \<Rightarrow> nat \<Rightarrow> CombatState \<Rightarrow> CombatAction \<Rightarrow> nat \<times> CombatState" where
  "dispatch h k s action =
     (case action_type action of
        Attack \<Rightarrow> handleAttack h k s
      | Defend \<Rightarrow> (k, handleDefend h s)
      | UseItem \<Rightarrow>
          (case itemId action of
             None \<Rightarrow> (k, s)
           | Some wanted \<Rightarrow> if wanted \<noteq> [] then (k, handleItemUse h s wanted) else (k, s))
      | Flee \<Rightarrow> handleFlee h k s)"

definition executeAction :: "Host \<Rightarrow> nat \<Rightarrow> CombatState \<Rightarrow> CombatAction \<Rightarrow> nat \<times> CombatState" where
  "executeAction h k s action =
     (if \<not> isActive s then (k, s)
      else
        (let s1 = (if phase s = ATTACK then applyStatusEffects h s else s);
             (k', s2) = dispatch h k s1 action;
             s3 = checkCombatEnd h s2
         in (k', if isActive s3 then progressTurn s3 else s3)))"

definition isPlayerTurn :: "CombatState \<Rightarrow> bool" where
  "isPlayerTurn s = (turn s = PLAYER \<and> isActive s)"

subsection \<open>The damage formula of the specification\<close>





section \<open>TreasureSystem.calculateSellPrice\<close>

text \<open>
  \<open>item.durability !== undefined && item.maxDurability\<close>: the durability is present
  and the maximum durability is present and not zero (zero is falsy). Halving a
  double and \<open>Math.floor\<close> are exact; the quotient \<open>durability / maxDurability\<close> and
  the product with it are rounded.
\<close>

definition calculateSellPrice :: "Item \<Rightarrow> int" where
  "calculateSellPrice item =
     (let sellPrice = \<lfloor>item_value item * 0.5\<rfloor>;
          sellPrice' =
            (case durability item of
               None \<Rightarrow> sellPrice
             | Some d \<Rightarrow>
                 (case maxDurability item of
                    None \<Rightarrow> sellPrice
                  | Some m \<Rightarrow>
                      if m \<noteq> 0 then
                        (let ratio = toDouble (d / m)
                         in \<lfloor>toDouble (of_int sellPrice * ratio)\<rfloor>)
                      else sellPrice))
      in max 1 sellPrice')"

text \<open>The sell price as the specification words it: one rounding down of
  \<open>value * 0.5 * durabilityRatio\<close>, with a minimum of 1; the ratio is current
  durability divided by max durability for a durable item and 1 otherwise. Quotient
  and product are doubles here too.\<close>

definition durabilityRatio :: "Item \<Rightarrow> real" where
  "durabilityRatio item =
     (case durability item of
        None \<Rightarrow> 1
      | Some d \<Rightarrow>
          (case maxDurability item of
             None \<Rightarrow> 1
           | Some m \<Rightarrow> if m \<noteq> 0 then toDouble (d / m) else 1))"

definition spec_sellPrice :: "Item \<Rightarrow> int" where
  "spec_sellPrice item = max 1 \<lfloor>toDouble (item_value item * 0.5 * durabilityRatio item)\<rfloor>"

section \<open>TreasureSystem.openTreasureChest\<close>

record OpenResult =
  got_items :: "Item list"
  got_gold :: real
  dropped :: "Item list"

text \<open>The \<open>forEach\<close> over the chest's items: the slots as the loop leaves them, the
  items obtained and the items dropped, each in the order of the chest.\<close>

fun openTreasureChest_forEach ::
  "Item option list \<Rightarrow> Item list \<Rightarrow> Item option list \<times> Item list \<times> Item list" where
  "openTreasureChest_forEach slots [] = (slots, [], [])"
| "openTreasureChest_forEach slots (item # rest) =
     (case findIndex (\<lambda>slot. slot = None) slots of
        Some emptySlot \<Rightarrow>
          (let (slots', obtained, drops) =
                 openTreasureChest_forEach (slots[emptySlot := Some item]) rest
           in (slots', item # obtained, drops))
      | None \<Rightarrow>
          (let (slots', obtained, drops) = openTreasureChest_forEach slots rest
           in (slots', obtained, item # drops)))"

definition openTreasureChest ::
  "TreasureChest \<Rightarrow> Character \<Rightarrow> TreasureChest \<times> Character \<times> OpenResult" where
  "openTreasureChest chest character =
     (if opened chest then (chest, character, \<lparr> got_items = [], got_gold = 0, dropped = [] \<rparr>)
      else
        (let chest' = chest\<lparr> opened := True \<rparr>;
             c1 = character\<lparr> gold := gold character + chest_gold chest \<rparr>;
             (slots, obtained, drops) =
               openTreasureChest_forEach (items (inventory c1)) (chest_items chest);
             c2 = c1\<lparr> inventory := (inventory c1)\<lparr> items := slots \<rparr> \<rparr>
         in (chest', c2, \<lparr> got_items = obtained, got_gold = chest_gold chest, dropped = drops \<rparr>)))"

text \<open>The number of empty slots of an inventory.\<close>

definition emptySlots :: "Item option list \<Rightarrow> nat" where
  "emptySlots slots = length (filter (\<lambda>slot. slot = None) slots)"

text \<open>The specification's wording of the item transfer: each item of the chest
  attempts \<open>InventoryManager.addItem\<close> in turn, and the items whose attempt fails are
  the dropped ones.\<close>

fun addAll :: "Inventory \<Rightarrow> Item list \<Rightarrow> Inventory \<times> Item list" where
  "addAll invt [] = (invt, [])"
| "addAll invt (item # rest) =
     (case addItem invt item of
        (invt', True) \<Rightarrow> addAll invt' rest
      | (invt', False) \<Rightarrow> (case addAll invt' rest of (invt'', drops) \<Rightarrow> (invt'', item # drops)))"

section \<open>LevelingSystem (in game/treasure/TreasureSystem.ts)\<close>

text \<open>\<open>BASE_EXP_REQUIREMENT = 100\<close>, \<open>EXP_MULTIPLIER = 1.5\<close>; \<open>Math.pow\<close> of a
  positive base is \<open>powr\<close>.\<close>

definition getExperienceRequiredForLevel :: "int \<Rightarrow> int" where
  "getExperienceRequiredForLevel lvl =
     (if lvl \<le> 1 then 0 else \<lfloor>100 * (real_of_int (lvl - 1)) powr 1.5\<rfloor>)"

text \<open>The threshold \<open>levelUp\<close> and \<open>createCharacter\<close> store for a character of level
  \<open>lvl\<close>.\<close>

definition thresholdAt :: "int \<Rightarrow> int" where
  "thresholdAt lvl = getExperienceRequiredForLevel (lvl + 1) - getExperienceRequiredForLevel lvl"

text \<open>\<open>HEALTH_PER_LEVEL = 10\<close>, \<open>ATTACK_PER_LEVEL = 2\<close>, \<open>DEFENSE_PER_LEVEL = 1\<close>,
  \<open>SPEED_PER_LEVEL = 1\<close>; four draws.\<close>

definition levelUp :: "Host \<Rightarrow> nat \<Rightarrow> Character \<Rightarrow> nat \<times> Character \<times> LevelUpResult" where
  "levelUp h k character =
     (let oldMaxHealth = maxHealth character;
          oldAttack = attack character;
          oldDefense = defense character;
          oldSpeed = speed character;
          lvl = level character + 1;
          healthGain = 10 + of_int \<lfloor>random h k * 5\<rfloor>;
          attackGain = 2 + of_int \<lfloor>random h (k + 1) * 2\<rfloor>;
          defenseGain = 1 + of_int \<lfloor>random h (k + 2) * 2\<rfloor>;
          speedGain = 1 + (if random h (k + 3) < 0.3 then 1 else 0);
          c = character\<lparr> level := lvl,
                maxHealth := maxHealth character + healthGain,
                health := health character + healthGain,
                attack := attack character + attackGain,
                defense := defense character + defenseGain,
                speed := speed character + speedGain,
                experience := experience character - experienceToNext character,
                experienceToNext := of_int (thresholdAt lvl) \<rparr>
      in (k + 4, c,
          \<lparr> newLevel = level c,
            statsGained = \<lparr> gained_health = maxHealth c - oldMaxHealth,
                            gained_attack = attack c - oldAttack,
                            gained_defense = defense c - oldDefense,
                            gained_speed = speed c - oldSpeed \<rparr> \<rparr>))"

text \<open>A bound on the iterations the \<open>while\<close> loop of \<open>addExperience\<close> still has to
  make: none when the experience is below the threshold; otherwise one, then one
  for every level below 1 still to pass (their thresholds are 0), then at most one
  for every whole point of experience left (every threshold from level 1 on is at
  least 1).\<close>

definition iterationsLeft :: "Character \<Rightarrow> nat" where
  "iterationsLeft c =
     (if experience c \<ge> experienceToNext c
      then 1 + nat (1 - (level c + 1)) + nat (\<lfloor>experience c - experienceToNext c\<rfloor> + 1)
      else 0)"

subsection \<open>The loop of addExperience terminates\<close>

lemma powr_three_halves:
  fixes x :: real
  assumes "0 \<le> x"
  shows "x powr 1.5 = x * sqrt x"
proof (cases "x = 0")
  case True then show ?thesis by simp
next
  case False
  with assms have pos: "0 < x" by simp
  have "x powr 1.5 = x powr (1 + 1/2)" by simp
  also have "\<dots> = x powr 1 * x powr (1/2)" by (rule powr_add)
  also have "\<dots> = x * sqrt x" using pos by (simp add: powr_half_sqrt)
  finally show ?thesis .
qed

lemma three_halves_step:
  fixes n :: int
  assumes "1 \<le> n"
  shows "real_of_int (n - 1) powr 1.5 + 1 \<le> real_of_int n powr 1.5"
proof (cases "n = 1")
  case True
  then show ?thesis by simp
next
  case False
  with assms have n2: "2 \<le> n" by simp
  define y where "y = real_of_int (n - 1)"
  have y1: "1 \<le> y" using n2 by (simp add: y_def)
  have x: "real_of_int n = y + 1" by (simp add: y_def)
  have s1: "1 \<le> sqrt y" using y1 by simp
  have mono: "sqrt y \<le> sqrt (y + 1)" by simp
  have "y * sqrt y + 1 \<le> y * sqrt y + sqrt y" using s1 by simp
  also have "\<dots> = (y + 1) * sqrt y" by (simp add: algebra_simps)
  also have "\<dots> \<le> (y + 1) * sqrt (y + 1)"
    using mono y1 by (intro mult_left_mono) simp_all
  finally have "y * sqrt y + 1 \<le> (y + 1) * sqrt (y + 1)" .
  moreover have "y powr 1.5 = y * sqrt y" using y1 by (intro powr_three_halves) simp
  moreover have "(y + 1) powr 1.5 = (y + 1) * sqrt (y + 1)"
    using y1 by (intro powr_three_halves) simp
  ultimately show ?thesis unfolding x y_def [symmetric] by simp
qed

lemma required_as_floor:
  assumes "1 \<le> lvl"
  shows "getExperienceRequiredForLevel lvl = \<lfloor>100 * real_of_int (lvl - 1) powr 1.5\<rfloor>"
  using assms by (cases "lvl = 1") (simp_all add: getExperienceRequiredForLevel_def)

lemma thresholdAt_ge_100:
  assumes "1 \<le> lvl"
  shows "100 \<le> thresholdAt lvl"
proof -
  let ?a = "100 * real_of_int lvl powr 1.5"
  let ?b = "100 * real_of_int (lvl - 1) powr 1.5"
  have "?b + 100 \<le> ?a" using three_halves_step [OF assms] by simp
  then have "\<lfloor>?b + 100\<rfloor> \<le> \<lfloor>?a\<rfloor>" by (rule floor_mono)
  moreover have "\<lfloor>?b + 100\<rfloor> = \<lfloor>?b\<rfloor> + 100" by simp
  moreover have "getExperienceRequiredForLevel (lvl + 1) = \<lfloor>?a\<rfloor>"
    using assms required_as_floor [of "lvl + 1"] by simp
  moreover have "getExperienceRequiredForLevel lvl = \<lfloor>?b\<rfloor>"
    using assms by (rule required_as_floor)
  ultimately show ?thesis by (simp add: thresholdAt_def)
qed

lemma thresholdAt_below_1:
  assumes "lvl \<le> 0"
  shows "thresholdAt lvl = 0"
  using assms by (simp add: thresholdAt_def getExperienceRequiredForLevel_def)

lemma levelUp_fields:
  "level (fst (snd (levelUp h k c))) = level c + 1"
  "experience (fst (snd (levelUp h k c))) = experience c - experienceToNext c"
  "experienceToNext (fst (snd (levelUp h k c))) = of_int (thresholdAt (level c + 1))"
  "fst (levelUp h k c) = k + 4"
  by (simp_all add: levelUp_def Let_def)

lemma iterationsLeft_decreases:
  assumes "experienceToNext c \<le> experience c"
    and "levelUp h k c = (k', c', r)"
  shows "iterationsLeft c' < iterationsLeft c"
proof -
  have l: "level c' = level c + 1"
    and e: "experience c' = experience c - experienceToNext c"
    and t: "experienceToNext c' = of_int (thresholdAt (level c + 1))"
    using levelUp_fields [of h k c] assms(2) by simp_all
  show ?thesis
  proof (cases "experienceToNext c' \<le> experience c'")
    case False
    then show ?thesis using assms(1) by (simp add: iterationsLeft_def)
  next
    case True
    show ?thesis
    proof (cases "1 \<le> level c + 1")
      case True
      from thresholdAt_ge_100 [OF this] have "1 \<le> experienceToNext c'" by (simp add: t)
      then have "\<lfloor>experience c' - experienceToNext c'\<rfloor> \<le> \<lfloor>experience c' - 1\<rfloor>"
        by (intro floor_mono) simp
      moreover have "1 \<le> \<lfloor>experience c'\<rfloor>"
        using \<open>1 \<le> experienceToNext c'\<close> \<open>experienceToNext c' \<le> experience c'\<close>
        by (simp add: le_floor_iff)
      ultimately show ?thesis
        using True \<open>experienceToNext c' \<le> experience c'\<close> assms(1)
        by (simp add: iterationsLeft_def l e [symmetric])
    next
      case False
      then have "thresholdAt (level c + 1) = 0" by (intro thresholdAt_below_1) simp
      then show ?thesis
        using False \<open>experienceToNext c' \<le> experience c'\<close> assms(1)
        by (simp add: iterationsLeft_def l t e [symmetric])
    qed
  qed
qed

text \<open>The \<open>while\<close> loop of \<open>addExperience\<close>; its termination is proved for every
  character and every host.\<close>

function addExperience_loop ::
  "Host \<Rightarrow> nat \<Rightarrow> Character \<Rightarrow> LevelUpResult list \<Rightarrow> nat \<times> Character \<times> LevelUpResult list" where
  "addExperience_loop h k character levelUpResults =
     (if experience character \<ge> experienceToNext character
      then (case levelUp h k character of
              (k', c', result) \<Rightarrow> addExperience_loop h k' c' (levelUpResults @ [result]))
      else (k, character, levelUpResults))"
  by pat_completeness auto
termination
  by (relation "measure (\<lambda>(h, k, c, rs). iterationsLeft c)")
     (auto intro: iterationsLeft_decreases [OF _ sym])

declare addExperience_loop.simps [simp del]


definition addExperience ::
  "Host \<Rightarrow> nat \<Rightarrow> Character \<Rightarrow> real \<Rightarrow> nat \<times> Character \<times> LevelUpResult list" where
  "addExperience h k character expGained =
     addExperience_loop h k (character\<lparr> experience := experience character + expGained \<rparr>) []"

definition createCharacter :: "Host \<Rightarrow> string \<Rightarrow> int \<Rightarrow> Character" where
  "createCharacter h nm lvl =
     (let hp = 100 + of_int (lvl - 1) * 10
      in \<lparr> char_id = ''char-'' @ numToString h (dateNow h), char_name = nm,
           health = hp, maxHealth = hp,
           attack = 10 + of_int (lvl - 1) * 2,
           defense = 5 + of_int (lvl - 1) * 1,
           speed = 10 + of_int (lvl - 1) * 1,
           level = lvl, experience = 0,
           experienceToNext = of_int (thresholdAt lvl),
           gold = 0,
           inventory = \<lparr> items = replicate 4 None, maxSlots = 4 \<rparr>,
           statusEffects = [],
           position = \<lparr> pos_x = 0, pos_y = 0 \<rparr> \<rparr>)"



section \<open>Concrete inputs\<close>

text \<open>A host whose every draw is 0.99 (every dodge, block, crit and flee roll
  fails), whose clock stands at 0 and which prints every number as \<open>#\<close>.\<close>

definition host0 :: Host where
  "host0 = \<lparr> random = (\<lambda>k. 0.99), dateNow = 0, numToString = (\<lambda>v. ''#'') \<rparr>"

text \<open>Combatant A of the specification's scenario: level 1, health 100/100, attack
  10, defense 5, speed 10, nothing equipped, no effects.\<close>

definition combatantA :: Character where
  "combatantA =
     \<lparr> char_id = ''a'', char_name = ''A'', health = 100, maxHealth = 100, attack = 10,
       defense = 5, speed = 10, level = 1, experience = 0, experienceToNext = 100, gold = 0,
       inventory = \<lparr> items = [None, None, None, None], maxSlots = 4 \<rparr>,
       statusEffects = [], position = \<lparr> pos_x = 0, pos_y = 0 \<rparr> \<rparr>"

text \<open>Combatant B of the scenario: health 40/40, defense 6, speed 8.\<close>

definition combatantB :: Character where
  "combatantB =
     \<lparr> char_id = ''b'', char_name = ''B'', health = 40, maxHealth = 40, attack = 4,
       defense = 6, speed = 8, level = 1, experience = 0, experienceToNext = 100, gold = 0,
       inventory = \<lparr> items = [None, None, None, None], maxSlots = 4 \<rparr>,
       statusEffects = [], position = \<lparr> pos_x = 0, pos_y = 0 \<rparr> \<rparr>"

text \<open>An encounter of A (the player, whose turn it is) against B, in the ATTACK
  phase of turn 1.\<close>

definition encounterAB :: CombatState where
  "encounterAB =
     \<lparr> player = combatantA, enemy = combatantB, turn = PLAYER, phase = ATTACK, turnCount = 1,
       combatLog = [], isActive = True \<rparr>"

text \<open>A sword of value 7 at durability 3 of 5.\<close>

definition worn_blade :: Item where
  "worn_blade =
     \<lparr> item_id = ''blade'', item_name = ''Iron Sword'', item_type = WEAPON, rarity = COMMON,
       stats = None, durability = Some 3, maxDurability = Some 5, item_value = 7,
       item_description = ''worn'' \<rparr>"

text \<open>A stunned and poisoned A.\<close>

definition poisonedA :: Character where
  "poisonedA = combatantA\<lparr> statusEffects := [createStun host0 1, createPoison host0 3 2] \<rparr>"

text \<open>A at 95 of 100 health under a poison of negative power.\<close>

definition antidotedA :: Character where
  "antidotedA = combatantA\<lparr> health := 95, statusEffects := [createPoison host0 (- 10) 3] \<rparr>"

text \<open>A at 3 health under regeneration, growth, poison and stun.\<close>

definition afflictedA :: Character where
  "afflictedA = combatantA\<lparr> health := 3,
     statusEffects := [createRegeneration host0 200 1, createGrowth host0 2, createPoison host0 500 2,
                       createStun host0 1] \<rparr>"

text \<open>A potion, a gem, and a chest holding a potion, the worn blade and the gem; A
  with two of four slots taken.\<close>

definition potion :: Item where
  "potion =
     \<lparr> item_id = ''potion'', item_name = ''Health Potion'', item_type = CONSUMABLE,
       rarity = COMMON,
       stats = Some \<lparr> stat_attack = None, stat_defense = None, stat_speed = None,
                      stat_health = Some 30 \<rparr>,
       durability = None, maxDurability = None, item_value = 20,
       item_description = ''Restores 30 health when consumed'' \<rparr>"

definition gem :: Item where
  "gem =
     \<lparr> item_id = ''gem'', item_name = ''Small Gem'', item_type = TREASURE, rarity = COMMON,
       stats = None, durability = None, maxDurability = None, item_value = 120,
       item_description = ''A valuable common treasure worth 120 gold.'' \<rparr>"

definition chest0 :: TreasureChest where
  "chest0 =
     \<lparr> chest_id = ''chest-0'', chest_position = \<lparr> pos_x = 5, pos_y = 5 \<rparr>,
       chest_items = [potion, worn_blade, gem], chest_gold = 15, opened = False \<rparr>"

definition packedA :: Character where
  "packedA = combatantA\<lparr> gold := 50,
     inventory := \<lparr> items = [Some worn_blade, None, Some potion, None], maxSlots = 4 \<rparr> \<rparr>"


definition defendAction :: CombatAction where
  "defendAction = \<lparr> action_type = Defend, target = None, itemId = None \<rparr>"

definition attackAction :: CombatAction where
  "attackAction = \<lparr> action_type = Attack, target = None, itemId = None \<rparr>"

text \<open>A defends in the ATTACK phase and again in the DEFEND phase of its turn.\<close>

definition twiceDefended :: CombatState where
  "twiceDefended =
     snd (executeAction host0 0 (snd (executeAction host0 0 encounterAB defendAction)) defendAction)"

text \<open>A, stunned for two turns, at the start of its turn against B.\<close>

definition stunnedEncounter :: CombatState where
  "stunnedEncounter = encounterAB\<lparr> player := combatantA\<lparr> statusEffects := [createStun host0 2] \<rparr> \<rparr>"

text \<open>An item action naming an item nobody holds.\<close>

definition noSuchItem :: CombatAction where
  "noSuchItem = \<lparr> action_type = UseItem, target = None, itemId = Some ''elixir'' \<rparr>"

text \<open>The log entry of a failed item lookup.\<close>

definition itemNotFound :: "Host \<Rightarrow> CombatLogEntry" where
  "itemNotFound h = \<lparr> message = ''Item not found!'', log_type = LogInfo, timestamp = dateNow h \<rparr>"

text \<open>A at level 1 with 200 of a stored threshold of 300 experience points.\<close>

definition overdueA :: Character where
  "overdueA = combatantA\<lparr> experience := 200, experienceToNext := 300 \<rparr>"

text \<open>A at level -1.\<close>

definition sunkenA :: Character where
  "sunkenA = combatantA\<lparr> level := - 1 \<rparr>"

text \<open>A common axe of value 44 at durability 15 of 22, and a rare level-4 sword of
  value 180 at durability 56 of 80.\<close>

definition nicked_axe :: Item where
  "nicked_axe = worn_blade\<lparr> item_id := ''axe'', item_name := ''Stone Axe'',
     durability := Some 15, maxDurability := Some 22, item_value := 44 \<rparr>"

definition rare_sword :: Item where
  "rare_sword =
     \<lparr> item_id = ''sword'', item_name = ''Enchanted Blade'', item_type = WEAPON, rarity = RARE,
       stats = Some \<lparr> stat_attack = Some 26, stat_defense = None, stat_speed = Some 0,
                      stat_health = None \<rparr>,
       durability = Some 56, maxDurability = Some 80, item_value = 180,
       item_description = ''A rare weapon that grants +26 attack power.'' \<rparr>"



section \<open>Facts about the array helpers\<close>

lemma findIndex_Some:
  "findIndex p xs = Some i \<Longrightarrow> i < length xs \<and> p (xs ! i) \<and> (\<forall>j<i. \<not> p (xs ! j))"
proof (induction xs arbitrary: i)
  case Nil
  then show ?case by simp
next
  case (Cons a as)
  show ?case
  proof (cases "p a")
    case True
    with Cons.prems show ?thesis by simp
  next
    case False
    with Cons.prems obtain i' where i': "findIndex p as = Some i'" "i = Suc i'"
      by (auto split: option.splits)
    from Cons.IH [OF i'(1)] False i'(2) show ?thesis
      by (auto simp: nth_Cons split: nat.splits)
  qed
qed

lemma findIndex_None: "findIndex p xs = None \<longleftrightarrow> (\<forall>x \<in> set xs. \<not> p x)"
  by (induction xs) (auto split: option.splits)

section \<open>Facts about double arithmetic\<close>

lemma roundEven_of_int [simp]: "roundEven (of_int i) = i"
  by (simp add: roundEven_def)

lemma toDouble_0 [simp]: "toDouble 0 = 0"
  by (simp add: toDouble_def)

lemma toDouble_exact:
  fixes x :: real
  assumes "x \<noteq> 0" and "x / 2 powr of_int (\<lfloor>log 2 \<bar>x\<bar>\<rfloor> - 52) = of_int i"
  shows "toDouble x = x"
proof -
  let ?u = "(2::real) powr of_int (\<lfloor>log 2 \<bar>x\<bar>\<rfloor> - 52)"
  have u: "0 < ?u" by simp
  have "toDouble x = of_int (roundEven (x / ?u)) * ?u"
    using assms(1) by (simp add: toDouble_def Let_def)
  also have "\<dots> = (x / ?u) * ?u" by (simp only: assms(2) roundEven_of_int)
  also have "\<dots> = x" using u by simp
  finally show ?thesis .
qed

lemma floor_log2_bounds:
  assumes "x \<noteq> 0"
  shows "2 powr of_int \<lfloor>log 2 \<bar>x\<bar>\<rfloor> \<le> \<bar>x\<bar>" and "\<bar>x\<bar> < 2 powr of_int (\<lfloor>log 2 \<bar>x\<bar>\<rfloor> + 1)"
proof -
  have pos: "0 < \<bar>x\<bar>" using assms by simp
  have "\<lfloor>log 2 \<bar>x\<bar>\<rfloor> = \<lfloor>log 2 \<bar>x\<bar>\<rfloor>" ..
  then have "2 powr of_int \<lfloor>log 2 \<bar>x\<bar>\<rfloor> \<le> \<bar>x\<bar> \<and> \<bar>x\<bar> < 2 powr (of_int \<lfloor>log 2 \<bar>x\<bar>\<rfloor> + 1)"
    using floor_log_eq_powr_iff [OF pos, of 2 "\<lfloor>log 2 \<bar>x\<bar>\<rfloor>"] by simp
  then show "2 powr of_int \<lfloor>log 2 \<bar>x\<bar>\<rfloor> \<le> \<bar>x\<bar>"
    and "\<bar>x\<bar> < 2 powr of_int (\<lfloor>log 2 \<bar>x\<bar>\<rfloor> + 1)" by simp_all
qed

lemma two_powr_nonneg_int:
  assumes "0 \<le> m"
  shows "(2::real) powr of_int m = of_int (2 ^ nat m)"
proof -
  have "(2::real) powr of_int m = 2 powr real (nat m)" using assms by simp
  also have "\<dots> = 2 ^ nat m" by (rule powr_realpow) simp
  finally show ?thesis by simp
qed

lemma toDouble_representable:
  assumes x: "x = of_int k * 2 powr of_int j" and k: "\<bar>k\<bar> \<le> 2 ^ 53"
  shows "toDouble x = x"
proof (cases "k = 0")
  case True
  with x show ?thesis by simp
next
  case False
  then have x0: "x \<noteq> 0" using x by simp
  let ?e = "\<lfloor>log 2 \<bar>x\<bar>\<rfloor>"
  have absx: "\<bar>x\<bar> = of_int \<bar>k\<bar> * 2 powr of_int j" by (simp add: x abs_mult)
  have "of_int \<bar>k\<bar> \<le> (2::real) ^ 53" using k by (metis of_int_le_iff of_int_numeral of_int_power)
  then have "\<bar>x\<bar> \<le> (2::real) ^ 53 * 2 powr of_int j" by (simp add: absx)
  also have "\<dots> = 2 powr of_int (53 + j)"
    by (simp add: powr_add powr_numeral)
  finally have up: "\<bar>x\<bar> \<le> 2 powr of_int (53 + j)" .
  from floor_log2_bounds(1) [OF x0] up have "(2::real) powr of_int ?e \<le> 2 powr of_int (53 + j)"
    by (rule order_trans)
  then have e: "?e \<le> 53 + j" by simp
  have quot: "x / 2 powr of_int (?e - 52) = of_int k * 2 powr of_int (j - ?e + 52)"
    by (simp add: x powr_diff powr_add field_simps)
  show ?thesis
  proof (cases "?e \<le> 52 + j")
    case True
    then have "0 \<le> j - ?e + 52" by simp
    from two_powr_nonneg_int [OF this] quot
    have "x / 2 powr of_int (?e - 52) = of_int (k * 2 ^ nat (j - ?e + 52))"
      by simp
    with x0 show ?thesis by (rule toDouble_exact)
  next
    case False
    with e have ej: "?e = 53 + j" by simp
    have "2 powr of_int (53 + j) \<le> \<bar>x\<bar>" using floor_log2_bounds(1) [OF x0] ej by simp
    then have "(2::real) ^ 53 * 2 powr of_int j \<le> of_int \<bar>k\<bar> * 2 powr of_int j"
      by (simp add: absx powr_add powr_numeral)
    then have "(2::real) ^ 53 \<le> of_int \<bar>k\<bar>" by simp
    then have "2 ^ 53 \<le> \<bar>k\<bar>" by (metis of_int_le_iff of_int_numeral of_int_power)
    with k have kk: "\<bar>k\<bar> = 2 ^ 53" by simp
    then obtain i where i: "k = 2 * i" by (cases "0 \<le> k") (auto intro: that [of "2 ^ 52"] that [of "- (2 ^ 52)"])
    have "x / 2 powr of_int (?e - 52) = of_int k * 2 powr (- 1)"
      using quot by (simp add: ej)
    also have "\<dots> = of_int i" by (simp add: i powr_minus)
    finally have "x / 2 powr of_int (?e - 52) = of_int i" .
    with x0 show ?thesis by (rule toDouble_exact)
  qed
qed

lemma toDouble_of_int:
  assumes "\<bar>n\<bar> \<le> 2 ^ 53"
  shows "toDouble (of_int n) = of_int n"
  using toDouble_representable [of "of_int n" n 0] assms by simp

lemma toDouble_half_int:
  assumes "\<bar>n\<bar> \<le> 2 ^ 53"
  shows "toDouble (of_int n * (1 / 2)) = of_int n * (1 / 2)"
  using toDouble_representable [of "of_int n * (1 / 2)" n "- 1"] assms by (simp add: powr_minus)

lemma toDouble_1 [simp]: "toDouble 1 = 1"
  using toDouble_of_int [of 1] by simp

lemma toDouble_half [simp]: "toDouble (1 / 2) = 1 / 2"
  using toDouble_half_int [of 1] by simp

lemma toDouble_eval:
  fixes n :: nat
  assumes "2 ^ 52 \<le> \<bar>x\<bar> * 2 ^ n" and "\<bar>x\<bar> * 2 ^ n < 2 ^ 53"
  shows "toDouble x = of_int (roundEven (x * 2 ^ n)) / 2 ^ n"
proof -
  have x0: "x \<noteq> 0" using assms(1) by auto
  then have pos: "0 < \<bar>x\<bar>" by simp
  have p: "(2::real) powr (of_int (52 - int n)) = 2 ^ 52 / 2 ^ n"
    "(2::real) powr (of_int (52 - int n) + 1) = 2 ^ 53 / 2 ^ n"
    by (simp_all add: powr_diff powr_add powr_realpow powr_numeral)
  have "2 powr (of_int (52 - int n)) \<le> \<bar>x\<bar> \<and> \<bar>x\<bar> < 2 powr (of_int (52 - int n) + 1)"
    using assms unfolding p by (simp add: field_simps)
  then have e: "\<lfloor>log 2 \<bar>x\<bar>\<rfloor> = 52 - int n"
    using floor_log_eq_powr_iff [OF pos, of 2 "52 - int n"] by simp
  have u: "(2::real) powr of_int (\<lfloor>log 2 \<bar>x\<bar>\<rfloor> - 52) = 1 / 2 ^ n"
    by (simp add: e powr_minus powr_realpow inverse_eq_divide)
  show ?thesis using x0 u by (simp add: toDouble_def Let_def)
qed

section \<open>Facts about the combat engine\<close>








lemma turn_updCurrent [simp]: "turn (updCurrent f s) = turn s"
  and turn_updOther [simp]: "turn (updOther f s) = turn s"
  and turn_addLogEntry [simp]: "turn (addLogEntry h m t s) = turn s"
  by (simp_all add: updCurrent_def updOther_def addLogEntry_def)

lemma currentOf_updCurrent [simp]: "currentOf (updCurrent f s) = f (currentOf s)"
  and otherOf_updCurrent [simp]: "otherOf (updCurrent f s) = otherOf s"
  and currentOf_updOther [simp]: "currentOf (updOther f s) = currentOf s"
  and otherOf_updOther [simp]: "otherOf (updOther f s) = f (otherOf s)"
  and currentOf_addLogEntry [simp]: "currentOf (addLogEntry h m t s) = currentOf s"
  and otherOf_addLogEntry [simp]: "otherOf (addLogEntry h m t s) = otherOf s"
  by (simp_all add: updCurrent_def updOther_def addLogEntry_def currentOf_def otherOf_def)

lemma otherOf_applyWeaponDurabilityLoss [simp]:
  "otherOf (applyWeaponDurabilityLoss h s) = otherOf s"
  by (simp add: applyWeaponDurabilityLoss_def Let_def split: option.splits)

lemma turn_applyWeaponDurabilityLoss [simp]:
  "turn (applyWeaponDurabilityLoss h s) = turn s"
  by (simp add: applyWeaponDurabilityLoss_def Let_def split: option.splits)

lemma turn_handleAttack [simp]: "turn (snd (handleAttack h k s)) = turn s"
  by (simp add: handleAttack_def Let_def split: prod.splits)


lemma foldl_power_shift:
  fixes a :: real
  shows "foldl (\<lambda>acc e. acc + StatusEffect.power e) a xs
      = a + foldl (\<lambda>acc e. acc + StatusEffect.power e) 0 xs"
proof (induction xs arbitrary: a)
  case Nil
  show ?case by simp
next
  case (Cons x xs)
  from Cons [of "a + StatusEffect.power x"] Cons [of "0 + StatusEffect.power x"]
  show ?case by simp
qed

lemma enchantSum_append:
  "enchantSum t (c\<lparr> statusEffects := statusEffects c @ es \<rparr>) =
     enchantSum t c + enchantSum t (c\<lparr> statusEffects := es \<rparr>)"
proof -
  let ?f = "\<lambda>acc e. acc + StatusEffect.power e"
  let ?p = "\<lambda>e. effect_type e = t"
  have "enchantSum t (c\<lparr> statusEffects := statusEffects c @ es \<rparr>) =
      foldl ?f (foldl ?f 0 (filter ?p (statusEffects c))) (filter ?p es)"
    by (simp add: enchantSum_def)
  also have "\<dots> = foldl ?f 0 (filter ?p (statusEffects c)) + foldl ?f 0 (filter ?p es)"
    by (rule foldl_power_shift)
  finally show ?thesis by (simp add: enchantSum_def)
qed

lemma handleDefend_current:
  "currentOf (handleDefend h s) =
     (currentOf s)\<lparr> health := min (maxHealth (currentOf s))
                       (health (currentOf s) + of_int \<lfloor>maxHealth (currentOf s) * 0.05\<rfloor>),
                    statusEffects := statusEffects (currentOf s) @ [defendBoost (currentOf s)] \<rparr>"
  by (simp add: handleDefend_def Let_def defendBoost_def)

lemma handleDefend_turn [simp]: "turn (handleDefend h s) = turn s"
  by (simp add: handleDefend_def Let_def)

lemma totalDefense_more_effects:
  assumes "inventory c' = inventory c" "defense c' = defense c"
    and "statusEffects c' = statusEffects c @ es"
  shows "totalDefense c' = totalDefense c + enchantSum ENCHANT_DEFENSE (c\<lparr> statusEffects := es \<rparr>)"
proof -
  have "enchantSum ENCHANT_DEFENSE c' = enchantSum ENCHANT_DEFENSE (c\<lparr> statusEffects := statusEffects c @ es \<rparr>)"
    using assms(3) by (simp add: enchantSum_def)
  then show ?thesis using assms(1,2) by (simp add: totalDefense_def Let_def enchantSum_append)
qed

lemma applyStatusEffects_none:
  assumes "statusEffects (currentOf s) = []"
  shows "applyStatusEffects h s = s"
  using assms by (auto simp: applyStatusEffects_def updCurrent_def currentOf_def split: if_splits)

lemma handleItemUse_missing:
  assumes "findIndex (onItem (\<lambda>item. item_id item = wanted)) (items (inventory (currentOf s))) = None"
  shows "handleItemUse h s wanted = s\<lparr> combatLog := combatLog s @ [itemNotFound h] \<rparr>"
  using assms by (simp add: handleItemUse_def addLogEntry_def itemNotFound_def Let_def)

section \<open>Status effect stacking\<close>

text \<open>
  C1: when an effect of the same type and name exists (\<open>findIndex\<close> returns its
  index \<open>i\<close>), \<open>applyEffect\<close> changes that entry only and adds none. For POISON and
  REGENERATION the entry's power becomes the sum of the two powers and its duration
  the maximum of the two durations. For the three enchantments the power is
  replaced (with the incoming duration) only when the incoming power is strictly
  greater; otherwise the power is kept and the duration becomes the maximum of the
  two. Poison (3, 2) then Poison (4, 5) on a combatant without effects leaves one
  effect of power 7 and duration 5; Attack Boost (5, 2) then Attack Boost (2, 3)
  leaves one effect of power 5 and duration 3.
\<close>

theorem C1_applyEffect_stacking:
  assumes found: "findIndex (sameEffect effect) (statusEffects c) = Some i"
  shows "i < length (statusEffects c) \<and> sameEffect effect (statusEffects c ! i)
    \<and> (effect_type effect \<in> {POISON, REGENERATION} \<longrightarrow>
         statusEffects (applyEffect c effect) =
           (statusEffects c)[i := (statusEffects c ! i)
              \<lparr> power := power (statusEffects c ! i) + power effect,
                duration := max (duration (statusEffects c ! i)) (duration effect) \<rparr>])
    \<and> (effect_type effect \<in> {ENCHANT_ATTACK, ENCHANT_DEFENSE, ENCHANT_SPEED} \<longrightarrow>
         statusEffects (applyEffect c effect) =
           (statusEffects c)[i :=
              (if power effect > power (statusEffects c ! i)
               then (statusEffects c ! i) \<lparr> power := power effect, duration := duration effect \<rparr>
               else (statusEffects c ! i)
                 \<lparr> duration := max (duration (statusEffects c ! i)) (duration effect) \<rparr>)])
    \<and> statusEffects (applyEffect (applyEffect (c\<lparr> statusEffects := [] \<rparr>) (createPoison h 3 2))
          (createPoison h 4 5)) = [(createPoison h 3 2) \<lparr> power := 7, duration := 5 \<rparr>]
    \<and> statusEffects (applyEffect (applyEffect (c\<lparr> statusEffects := [] \<rparr>) (createAttackBoost h 5 2))
          (createAttackBoost h 2 3)) = [(createAttackBoost h 5 2) \<lparr> power := 5, duration := 3 \<rparr>]"
proof -
  have idx: "i < length (statusEffects c) \<and> sameEffect effect (statusEffects c ! i)"
    using findIndex_Some [OF found] by simp
  have cumul: "effect_type effect \<in> {POISON, REGENERATION} \<longrightarrow>
         statusEffects (applyEffect c effect) =
           (statusEffects c)[i := (statusEffects c ! i)
              \<lparr> power := power (statusEffects c ! i) + power effect,
                duration := max (duration (statusEffects c ! i)) (duration effect) \<rparr>]"
    by (auto simp: applyEffect_def found stackPower_def Let_def)
  have ench: "effect_type effect \<in> {ENCHANT_ATTACK, ENCHANT_DEFENSE, ENCHANT_SPEED} \<longrightarrow>
         statusEffects (applyEffect c effect) =
           (statusEffects c)[i :=
              (if power effect > power (statusEffects c ! i)
               then (statusEffects c ! i) \<lparr> power := power effect, duration := duration effect \<rparr>
               else (statusEffects c ! i)
                 \<lparr> duration := max (duration (statusEffects c ! i)) (duration effect) \<rparr>)]"
    by (auto simp: applyEffect_def found replaceIfStronger_def Let_def)
  have ex1: "statusEffects (applyEffect (applyEffect (c\<lparr> statusEffects := [] \<rparr>) (createPoison h 3 2))
          (createPoison h 4 5)) = [(createPoison h 3 2) \<lparr> power := 7, duration := 5 \<rparr>]"
    by (simp add: applyEffect_def createPoison_def sameEffect_def stackPower_def)
  have ex2: "statusEffects (applyEffect (applyEffect (c\<lparr> statusEffects := [] \<rparr>) (createAttackBoost h 5 2))
          (createAttackBoost h 2 3)) = [(createAttackBoost h 5 2) \<lparr> power := 5, duration := 3 \<rparr>]"
    by (simp add: applyEffect_def createAttackBoost_def sameEffect_def replaceIfStronger_def)
  from idx cumul ench ex1 ex2 show ?thesis by blast
qed

theorem C1_applyEffect_stacking_witness:
  "findIndex (sameEffect (createPoison host0 4 5)) (statusEffects poisonedA) = Some 1
   \<and> statusEffects (applyEffect poisonedA (createPoison host0 4 5)) =
       [createStun host0 1, (createPoison host0 3 2) \<lparr> power := 7, duration := 5 \<rparr>]"
proof -
  have f: "findIndex (sameEffect (createPoison host0 4 5)) (statusEffects poisonedA) = Some 1"
    by (simp add: poisonedA_def sameEffect_def createPoison_def createStun_def)
  from C1_applyEffect_stacking [OF f, of host0] f show ?thesis
    by (simp add: poisonedA_def createPoison_def createStun_def)
qed

section \<open>The damage of a landed attack\<close>




section \<open>A stunned combatant\<close>

text \<open>
  C3 fails on the code. \<open>applyStatusEffects\<close> logs that the stunned combatant cannot
  act and sets the phase to DEFEND ("Skip the turn"), but \<open>executeAction\<close> goes on
  to dispatch the submitted action. Stunned A attacks B: the attack lands, B goes
  from 40 to 33 health, and only then the turn passes to B.
\<close>

theorem C3_stunned_attack_lands:
  "hasEffectType (currentOf stunnedEncounter) STUN
   \<and> isActive stunnedEncounter \<and> phase stunnedEncounter = ATTACK
   \<and> health (enemy stunnedEncounter) = 40
   \<and> health (enemy (snd (executeAction host0 0 stunnedEncounter attackAction))) = 33
   \<and> map message (combatLog (snd (executeAction host0 0 stunnedEncounter attackAction))) =
       [''A is stunned and cannot act!'', ''A deals # damage to B!'']
   \<and> turn (snd (executeAction host0 0 stunnedEncounter attackAction)) = ENEMY
   \<and> phase (snd (executeAction host0 0 stunnedEncounter attackAction)) = ATTACK"
  by code_simp

section \<open>An item that is not in the inventory\<close>

text \<open>
  C4, as the specification states it, fails: \<open>handleItemUse\<close> only logs, but
  \<open>executeAction\<close> then advances the turn as after any other action. From the
  ATTACK phase the encounter moves to the DEFEND phase; from the DEFEND phase the
  turn passes to the opponent and the turn counter goes from 1 to 2.
\<close>

theorem C4_counterexample:
  "isActive encounterAB
   \<and> findIndex (onItem (\<lambda>item. item_id item = ''elixir'')) (items (inventory (currentOf encounterAB))) = None
   \<and> phase encounterAB = ATTACK
   \<and> phase (snd (executeAction host0 0 encounterAB noSuchItem)) = DEFEND
   \<and> turn (snd (executeAction host0 0 (encounterAB\<lparr> phase := DEFEND \<rparr>) noSuchItem)) = ENEMY
   \<and> turnCount (snd (executeAction host0 0 (encounterAB\<lparr> phase := DEFEND \<rparr>) noSuchItem)) = 2"
  by code_simp

text \<open>
  C4, amended: for an item id that is not in the acting combatant's inventory,
  \<open>handleItemUse\<close> changes nothing but the log, to which it appends the single
  entry "Item not found!". \<open>executeAction\<close> with such an action, on an active
  encounter whose combatants are alive (and, in the ATTACK phase, whose acting
  combatant has no status effect to process), draws no random number, leaves both
  combatants unchanged and appends that entry, and advances the turn: ATTACK
  becomes DEFEND with the same owner and counter; otherwise the turn passes to the
  opponent in the ATTACK phase and the turn counter grows by 1.
\<close>

theorem C4_item_not_found:
  assumes missing:
    "findIndex (onItem (\<lambda>item. item_id item = wanted)) (items (inventory (currentOf s))) = None"
  shows "handleItemUse h s wanted = s\<lparr> combatLog := combatLog s @ [itemNotFound h] \<rparr>
    \<and> (isActive s \<and> wanted \<noteq> [] \<and> 0 < health (player s) \<and> 0 < health (enemy s)
         \<and> (phase s = ATTACK \<longrightarrow> statusEffects (currentOf s) = []) \<longrightarrow>
        executeAction h k s \<lparr> action_type = UseItem, target = tg, itemId = Some wanted \<rparr> =
          (k, progressTurn (s\<lparr> combatLog := combatLog s @ [itemNotFound h] \<rparr>)))
    \<and> player (progressTurn (s\<lparr> combatLog := combatLog s @ [itemNotFound h] \<rparr>)) = player s
    \<and> enemy (progressTurn (s\<lparr> combatLog := combatLog s @ [itemNotFound h] \<rparr>)) = enemy s
    \<and> combatLog (progressTurn (s\<lparr> combatLog := combatLog s @ [itemNotFound h] \<rparr>)) =
         combatLog s @ [itemNotFound h]
    \<and> phase (progressTurn (s\<lparr> combatLog := combatLog s @ [itemNotFound h] \<rparr>)) =
         (if phase s = ATTACK then DEFEND else ATTACK)
    \<and> turn (progressTurn (s\<lparr> combatLog := combatLog s @ [itemNotFound h] \<rparr>)) =
         (if phase s = ATTACK then turn s else if turn s = PLAYER then ENEMY else PLAYER)
    \<and> turnCount (progressTurn (s\<lparr> combatLog := combatLog s @ [itemNotFound h] \<rparr>)) =
         (if phase s = ATTACK then turnCount s else turnCount s + 1)"
proof -
  let ?s' = "s\<lparr> combatLog := combatLog s @ [itemNotFound h] \<rparr>"
  have use: "handleItemUse h s wanted = ?s'"
    using missing by (rule handleItemUse_missing)
  have exec: "isActive s \<and> wanted \<noteq> [] \<and> 0 < health (player s) \<and> 0 < health (enemy s)
         \<and> (phase s = ATTACK \<longrightarrow> statusEffects (currentOf s) = []) \<longrightarrow>
        executeAction h k s \<lparr> action_type = UseItem, target = tg, itemId = Some wanted \<rparr> =
          (k, progressTurn ?s')"
  proof
    assume a: "isActive s \<and> wanted \<noteq> [] \<and> 0 < health (player s) \<and> 0 < health (enemy s)
         \<and> (phase s = ATTACK \<longrightarrow> statusEffects (currentOf s) = [])"
    then have s1: "(if phase s = ATTACK then applyStatusEffects h s else s) = s"
      by (simp add: applyStatusEffects_none)
    have chk: "checkCombatEnd h ?s' = ?s'" using a by (simp add: checkCombatEnd_def)
    show "executeAction h k s \<lparr> action_type = UseItem, target = tg, itemId = Some wanted \<rparr> =
          (k, progressTurn ?s')"
      using a by (simp add: executeAction_def s1 dispatch_def use chk Let_def)
  qed
  have rest: "player (progressTurn ?s') = player s" "enemy (progressTurn ?s') = enemy s"
    "combatLog (progressTurn ?s') = combatLog s @ [itemNotFound h]"
    "phase (progressTurn ?s') = (if phase s = ATTACK then DEFEND else ATTACK)"
    "turn (progressTurn ?s') =
         (if phase s = ATTACK then turn s else if turn s = PLAYER then ENEMY else PLAYER)"
    "turnCount (progressTurn ?s') = (if phase s = ATTACK then turnCount s else turnCount s + 1)"
    by (simp_all add: progressTurn_def)
  from use exec rest show ?thesis by blast
qed

theorem C4_item_not_found_witness:
  "findIndex (onItem (\<lambda>item. item_id item = ''elixir'')) (items (inventory (currentOf encounterAB))) = None
   \<and> handleItemUse host0 encounterAB ''elixir'' =
       encounterAB\<lparr> combatLog := [itemNotFound host0] \<rparr>
   \<and> executeAction host0 0 encounterAB noSuchItem =
       (0, encounterAB\<lparr> combatLog := [itemNotFound host0], phase := DEFEND \<rparr>)"
proof -
  have m: "findIndex (onItem (\<lambda>item. item_id item = ''elixir''))
      (items (inventory (currentOf encounterAB))) = None"
    by code_simp
  have pre: "isActive encounterAB \<and> ''elixir'' \<noteq> [] \<and> 0 < health (player encounterAB)
      \<and> 0 < health (enemy encounterAB)
      \<and> (if phase encounterAB = ATTACK then statusEffects (currentOf encounterAB) = [] else True)"
    by code_simp
  have log: "combatLog encounterAB = []" "phase encounterAB = ATTACK"
    by (simp_all add: encounterAB_def)
  from C4_item_not_found [OF m, of host0 0 None] pre m show ?thesis
    by (simp add: noSuchItem_def log progressTurn_def)
qed

section \<open>Leveling\<close>

lemma loop_stop:
  "\<not> experienceToNext c \<le> experience c \<Longrightarrow> addExperience_loop h k c rs = (k, c, rs)"
  by (subst addExperience_loop.simps) simp

lemma loop_step:
  "experienceToNext c \<le> experience c \<Longrightarrow>
     addExperience_loop h k c rs =
       addExperience_loop h (k + 4) (fst (snd (levelUp h k c))) (rs @ [snd (snd (levelUp h k c))])"
proof -
  assume go: "experienceToNext c \<le> experience c"
  obtain k1 c1 r where lu: "levelUp h k c = (k1, c1, r)"
    by (cases "levelUp h k c") auto
  with levelUp_fields(4) [of h k c] have "k1 = k + 4" by simp
  with go lu show ?thesis by (subst addExperience_loop.simps) simp
qed

lemma levelUp_newLevel: "newLevel (snd (snd (levelUp h k c))) = level c + 1"
  by (simp add: levelUp_def Let_def)

lemma loop_result:
  "addExperience_loop h k c rs = (k', c', rs') \<Longrightarrow>
     experience c' < experienceToNext c'
     \<and> (\<exists>new. rs' = rs @ new
          \<and> level c' = level c + int (length new)
          \<and> k' = k + 4 * length new
          \<and> (\<forall>i < length new. newLevel (new ! i) = level c + 1 + int i)
          \<and> (new \<noteq> [] \<longrightarrow> experienceToNext c' = of_int (thresholdAt (level c')))
          \<and> (new = [] \<longrightarrow> c' = c))"
proof (induction h k c rs arbitrary: k' c' rs' rule: addExperience_loop.induct)
  case (1 h k c rs)
  show ?case
  proof (cases "experienceToNext c \<le> experience c")
    case False
    with "1.prems" show ?thesis by (simp add: loop_stop)
  next
    case True
    let ?c1 = "fst (snd (levelUp h k c))"
    let ?r = "snd (snd (levelUp h k c))"
    have lu: "(k + 4, snd (levelUp h k c)) = levelUp h k c"
      by (metis levelUp_fields(4) prod.collapse)
    have sn: "(?c1, ?r) = snd (levelUp h k c)" by simp
    have run: "addExperience_loop h (k + 4) ?c1 (rs @ [?r]) = (k', c', rs')"
      using "1.prems" True by (simp add: loop_step)
    from "1.IH" [OF True lu sn run]
    obtain new where ex: "experience c' < experienceToNext c'"
      and new: "rs' = (rs @ [?r]) @ new" "level c' = level ?c1 + int (length new)"
        "k' = k + 4 + 4 * length new"
        "\<forall>i < length new. newLevel (new ! i) = level ?c1 + 1 + int i"
        "new \<noteq> [] \<longrightarrow> experienceToNext c' = of_int (thresholdAt (level c'))"
        "new = [] \<longrightarrow> c' = ?c1"
      by blast
    have lvl: "level ?c1 = level c + 1" by (simp add: levelUp_fields)
    have thr: "experienceToNext ?c1 = of_int (thresholdAt (level ?c1))"
      by (simp add: levelUp_fields)
    have levels: "\<forall>i < length (?r # new). newLevel ((?r # new) ! i) = level c + 1 + int i"
    proof (intro allI impI)
      fix i assume "i < length (?r # new)"
      then show "newLevel ((?r # new) ! i) = level c + 1 + int i"
        using new(4) lvl by (cases i) (simp_all add: levelUp_newLevel)
    qed
    have last: "experienceToNext c' = of_int (thresholdAt (level c'))"
      using new(5,6) thr by (cases "new = []") simp_all
    have "rs' = rs @ (?r # new) \<and> level c' = level c + int (length (?r # new))
        \<and> k' = k + 4 * length (?r # new)"
      using new(1,2,3) lvl by simp
    with ex levels last show ?thesis by blast
  qed
qed

lemma required_eq:
  assumes "1 < lvl" "0 \<le> r" "r\<^sup>2 \<le> 10000 * (lvl - 1) ^ 3" "10000 * (lvl - 1) ^ 3 < (r + 1)\<^sup>2"
  shows "getExperienceRequiredForLevel lvl = r"
proof -
  define x where "x = real_of_int (lvl - 1)"
  have x0: "0 \<le> x" using assms(1) by (simp add: x_def)
  have sq: "(100 * (x * sqrt x))\<^sup>2 = 10000 * x ^ 3"
    using x0 by (simp add: power_mult_distrib power2_eq_square power3_eq_cube)
  have nn: "0 \<le> 100 * (x * sqrt x)" using x0 by simp
  have "real_of_int (r\<^sup>2) \<le> real_of_int (10000 * (lvl - 1) ^ 3)"
    using assms(3) by (simp only: of_int_le_iff)
  then have lo: "(real_of_int r)\<^sup>2 \<le> 10000 * x ^ 3"
    by (simp add: x_def)
  have "real_of_int (10000 * (lvl - 1) ^ 3) < real_of_int ((r + 1)\<^sup>2)"
    using assms(4) by (simp only: of_int_less_iff)
  then have hi: "10000 * x ^ 3 < (real_of_int (r + 1))\<^sup>2"
    by (simp add: x_def)
  have "(real_of_int r)\<^sup>2 \<le> (100 * (x * sqrt x))\<^sup>2" using lo sq by simp
  then have "real_of_int r \<le> 100 * (x * sqrt x)"
    using nn by (rule power2_le_imp_le)
  moreover have "100 * (x * sqrt x) < real_of_int (r + 1)"
  proof (rule ccontr)
    assume "\<not> 100 * (x * sqrt x) < real_of_int (r + 1)"
    then have "real_of_int (r + 1) \<le> 100 * (x * sqrt x)" by simp
    moreover have "0 \<le> real_of_int (r + 1)" using assms(2) by simp
    ultimately have "(real_of_int (r + 1))\<^sup>2 \<le> (100 * (x * sqrt x))\<^sup>2"
      by (intro power_mono) simp_all
    with hi sq show False by simp
  qed
  ultimately have "\<lfloor>100 * (x * sqrt x)\<rfloor> = r" by (simp add: floor_unique)
  moreover have "x powr 1.5 = x * sqrt x" using x0 by (rule powr_three_halves)
  ultimately show ?thesis using assms(1) by (simp add: getExperienceRequiredForLevel_def x_def)
qed

lemma required_values:
  "getExperienceRequiredForLevel 1 = 0"
  "getExperienceRequiredForLevel 2 = 100"
  "getExperienceRequiredForLevel 3 = 282"
  "getExperienceRequiredForLevel 4 = 519"
  by (simp add: getExperienceRequiredForLevel_def)
     (rule required_eq; simp)+

lemma thresholdAt_values:
  "thresholdAt 1 = 100" "thresholdAt 2 = 182" "thresholdAt 3 = 237"
  "thresholdAt 0 = 0" "thresholdAt (- 1) = 0"
  using required_values by (simp_all add: thresholdAt_def getExperienceRequiredForLevel_def)


text \<open>The combatant A of the scenarios is the level-1 character \<open>createCharacter\<close>
  makes, but for its id.\<close>

lemma createCharacter_level_1:
  "createCharacter h ''A'' 1 = combatantA\<lparr> char_id := ''char-'' @ numToString h (dateNow h) \<rparr>"
  by (simp add: createCharacter_def combatantA_def thresholdAt_values numeral_eq_Suc)

lemma thresholdAt_formula:
  assumes "1 \<le> lvl"
  shows "thresholdAt lvl =
      \<lfloor>100 * real_of_int lvl powr 1.5\<rfloor> - \<lfloor>100 * real_of_int (lvl - 1) powr 1.5\<rfloor>"
  using assms required_as_floor [of lvl] required_as_floor [of "lvl + 1"]
  by (simp add: thresholdAt_def)

lemma one_level_up:
  assumes "0 \<le> level c" "0 \<le> experience c"
    and "experience c < of_int (thresholdAt (level c + 1))"
  shows "length (snd (snd (addExperience h k c (experienceToNext c)))) = 1"
proof -
  let ?c1 = "c\<lparr> experience := experience c + experienceToNext c \<rparr>"
  let ?c2 = "fst (snd (levelUp h k ?c1))"
  have go: "experienceToNext ?c1 \<le> experience ?c1" using assms(2) by simp
  have e2: "experience ?c2 = experience c" by (simp add: levelUp_fields)
  have t2: "experienceToNext ?c2 = of_int (thresholdAt (level c + 1))" by (simp add: levelUp_fields)
  have stop: "\<not> experienceToNext ?c2 \<le> experience ?c2" using assms(3) e2 t2 by simp
  have "addExperience h k c (experienceToNext c) =
      addExperience_loop h (k + 4) ?c2 ([] @ [snd (snd (levelUp h k ?c1))])"
    unfolding addExperience_def using go by (rule loop_step)
  also have "\<dots> = (k + 4, ?c2, [] @ [snd (snd (levelUp h k ?c1))])"
    using stop by (rule loop_stop)
  finally show ?thesis by simp
qed

text \<open>
  C5, as the specification states it, fails in two places. Feeding exactly the
  stored threshold produces one level-up only when the experience left over is
  below the next threshold: A at level 1 with 200 of a stored 300 points, fed 300,
  levels up twice (200 is not below 182, the threshold of level 2). And the
  recomputed threshold is 0, not positive, for a new level below 1: a level-up from
  level -1 stores the threshold 0.
\<close>

theorem C5_counterexample:
  "0 < experienceToNext overdueA \<and> 0 \<le> experience overdueA
   \<and> experience overdueA < experienceToNext overdueA
   \<and> length (snd (snd (addExperience host0 0 overdueA (experienceToNext overdueA)))) = 2
   \<and> level (fst (snd (addExperience host0 0 overdueA (experienceToNext overdueA)))) = 3
   \<and> 0 < experienceToNext sunkenA
   \<and> experienceToNext (fst (snd (levelUp host0 0 sunkenA))) = 0"
proof -
  let ?c1 = "overdueA\<lparr> experience := experience overdueA + experienceToNext overdueA \<rparr>"
  let ?r1 = "snd (snd (levelUp host0 0 ?c1))"
  let ?c2 = "fst (snd (levelUp host0 0 ?c1))"
  let ?r2 = "snd (snd (levelUp host0 4 ?c2))"
  let ?c3 = "fst (snd (levelUp host0 4 ?c2))"
  have f: "experience overdueA = 200" "experienceToNext overdueA = 300" "level overdueA = 1"
    by (simp_all add: overdueA_def combatantA_def)
  have go1: "experienceToNext ?c1 \<le> experience ?c1" by (simp add: f)
  have go2: "experienceToNext ?c2 \<le> experience ?c2"
    by (simp add: levelUp_fields f thresholdAt_values)
  have c3: "experience ?c3 = 18" "experienceToNext ?c3 = 237" "level ?c3 = 3"
    by (simp_all add: levelUp_fields f thresholdAt_values)
  have stop: "\<not> experienceToNext ?c3 \<le> experience ?c3"
    by (simp add: c3)
  have "addExperience host0 0 overdueA (experienceToNext overdueA) =
      addExperience_loop host0 4 ?c2 [?r1]"
    unfolding addExperience_def using loop_step [OF go1, of host0 0 "[]"] by simp
  also have "\<dots> = addExperience_loop host0 8 ?c3 [?r1, ?r2]"
    using loop_step [OF go2, of host0 4 "[?r1]"] by simp
  also have "\<dots> = (8, ?c3, [?r1, ?r2])"
    using stop by (rule loop_stop)
  finally have run: "addExperience host0 0 overdueA (experienceToNext overdueA) =
      (8, ?c3, [?r1, ?r2])" .
  have sunk: "0 < experienceToNext sunkenA \<and> experienceToNext (fst (snd (levelUp host0 0 sunkenA))) = 0"
    by (simp add: sunkenA_def combatantA_def levelUp_fields thresholdAt_values)
  have fin: "length (snd (snd (8::nat, ?c3, [?r1, ?r2]))) = 2 \<and> level (fst (snd (8::nat, ?c3, [?r1, ?r2]))) = 3"
    by (simp add: c3)
  show ?thesis unfolding run using sunk fin by (simp add: f)
qed

text \<open>
  C5, amended: \<open>addExperience\<close> terminates for every combatant and every amount
  (\<open>addExperience_loop\<close> is a total function: its termination is proved above). With
  \<open>rs\<close> the level-ups it returns, the level has grown by the length of \<open>rs\<close>, the
  \<open>i\<close>-th result reports the level \<open>level + 1 + i\<close>, and the experience left is
  strictly below \<open>experienceToNext\<close>. Every level-up stores the threshold
  \<open>thresholdAt\<close> of the new level, which for a new level of at least 1 is
  \<open>floor (100 * level ^ 1.5) - floor (100 * (level - 1) ^ 1.5)\<close> and positive. Feeding
  exactly the stored threshold to a combatant of level at least 0 whose experience
  is not negative and below the threshold of the next level produces exactly one
  level-up.
\<close>

theorem C5_addExperience:
  assumes run: "addExperience h k c amount = (k', c', rs)"
  shows "experience c' < experienceToNext c'
   \<and> level c' = level c + int (length rs)
   \<and> (\<forall>i < length rs. newLevel (rs ! i) = level c + 1 + int i)
   \<and> (rs \<noteq> [] \<longrightarrow> experienceToNext c' = of_int (thresholdAt (level c')))
   \<and> experienceToNext (fst (snd (levelUp h j d))) = of_int (thresholdAt (level d + 1))
   \<and> level (fst (snd (levelUp h j d))) = level d + 1
   \<and> (1 \<le> lvl \<longrightarrow>
        thresholdAt lvl =
          \<lfloor>100 * real_of_int lvl powr 1.5\<rfloor> - \<lfloor>100 * real_of_int (lvl - 1) powr 1.5\<rfloor>
        \<and> 0 < thresholdAt lvl)
   \<and> (0 \<le> level c \<and> 0 \<le> experience c \<and> experience c < of_int (thresholdAt (level c + 1))
        \<and> amount = experienceToNext c \<longrightarrow> length rs = 1)"
proof -
  let ?c0 = "c\<lparr> experience := experience c + amount \<rparr>"
  from run have "addExperience_loop h k ?c0 [] = (k', c', rs)" by (simp add: addExperience_def)
  from loop_result [OF this] obtain new where
    ex: "experience c' < experienceToNext c'" and
    new: "rs = [] @ new" "level c' = level ?c0 + int (length new)"
      "\<forall>i < length new. newLevel (new ! i) = level ?c0 + 1 + int i"
      "new \<noteq> [] \<longrightarrow> experienceToNext c' = of_int (thresholdAt (level c'))"
    by blast
  have a: "level c' = level c + int (length rs)" using new(1,2) by simp
  have b: "\<forall>i < length rs. newLevel (rs ! i) = level c + 1 + int i" using new(1,3) by simp
  have c: "rs \<noteq> [] \<longrightarrow> experienceToNext c' = of_int (thresholdAt (level c'))"
    using new(1,4) by simp
  have d: "experienceToNext (fst (snd (levelUp h j d))) = of_int (thresholdAt (level d + 1))"
    "level (fst (snd (levelUp h j d))) = level d + 1"
    by (simp_all add: levelUp_fields)
  have e: "1 \<le> lvl \<longrightarrow>
        thresholdAt lvl =
          \<lfloor>100 * real_of_int lvl powr 1.5\<rfloor> - \<lfloor>100 * real_of_int (lvl - 1) powr 1.5\<rfloor>
        \<and> 0 < thresholdAt lvl"
    using thresholdAt_formula [of lvl] thresholdAt_ge_100 [of lvl] by auto
  have f: "0 \<le> level c \<and> 0 \<le> experience c \<and> experience c < of_int (thresholdAt (level c + 1))
        \<and> amount = experienceToNext c \<longrightarrow> length rs = 1"
  proof
    assume h: "0 \<le> level c \<and> 0 \<le> experience c \<and> experience c < of_int (thresholdAt (level c + 1))
        \<and> amount = experienceToNext c"
    then have "length (snd (snd (addExperience h k c (experienceToNext c)))) = 1"
      by (intro one_level_up) simp_all
    with h run show "length rs = 1" by simp
  qed
  from ex a b c d e f show ?thesis by blast
qed

theorem C5_addExperience_witness:
  "length (snd (snd (addExperience host0 0 combatantA 100))) = 1
   \<and> level (fst (snd (addExperience host0 0 combatantA 100))) = 2
   \<and> experience (fst (snd (addExperience host0 0 combatantA 100)))
       < experienceToNext (fst (snd (addExperience host0 0 combatantA 100)))
   \<and> experienceToNext (fst (snd (addExperience host0 0 combatantA 100))) = 182
   \<and> thresholdAt 2 = 182"
proof -
  let ?r = "addExperience host0 0 combatantA 100"
  have run: "?r = (fst ?r, fst (snd ?r), snd (snd ?r))" by simp
  have f: "level combatantA = 1" "experience combatantA = 0" "experienceToNext combatantA = 100"
    by (simp_all add: combatantA_def)
  have pre: "0 \<le> level combatantA \<and> 0 \<le> experience combatantA
      \<and> experience combatantA < of_int (thresholdAt (level combatantA + 1))
      \<and> 100 = experienceToNext combatantA"
    by (simp add: f thresholdAt_values)
  note T = C5_addExperience [OF run, where lvl = 2]
  from T pre have len: "length (snd (snd ?r)) = 1" by blast
  from T have "level (fst (snd ?r)) = level combatantA + int (length (snd (snd ?r)))" by blast
  with len f have lvl: "level (fst (snd ?r)) = 2" by simp
  from len have ne: "snd (snd ?r) \<noteq> []" by auto
  from T ne have "experienceToNext (fst (snd ?r)) = of_int (thresholdAt (level (fst (snd ?r))))"
    by blast
  with lvl have thr: "experienceToNext (fst (snd ?r)) = 182" by (simp add: thresholdAt_values)
  from T have below: "experience (fst (snd ?r)) < experienceToNext (fst (snd ?r))" by blast
  from len lvl below thr thresholdAt_values(2) show ?thesis by blast
qed

section \<open>Opening a chest\<close>

lemma findIndex_None_emptySlots:
  "findIndex (\<lambda>slot. slot = None) slots = None \<longleftrightarrow> emptySlots slots = 0"
  by (auto simp: findIndex_None emptySlots_def filter_empty_conv)

lemma emptySlots_fill:
  assumes "findIndex (\<lambda>slot. slot = None) slots = Some i"
  shows "emptySlots (slots[i := Some item]) = emptySlots slots - 1 \<and> 0 < emptySlots slots"
proof -
  from findIndex_Some [OF assms] have i: "i < length slots" "slots ! i = None" by simp_all
  have "slots = take i slots @ None # drop (Suc i) slots"
    using i by (metis id_take_nth_drop)
  then obtain xs ys where split: "slots = xs @ None # ys" "length xs = i" 
    using i(1) by (metis length_take min.absorb2 less_imp_le)
  have "(xs @ None # ys)[length xs := Some item] = xs @ Some item # ys" by simp
  then have "slots[i := Some item] = xs @ Some item # ys" by (simp only: split)
  then show ?thesis using split(1) by (simp add: emptySlots_def)
qed

lemma forEach_full:
  assumes "findIndex (\<lambda>slot. slot = None) slots = None"
  shows "openTreasureChest_forEach slots its = (slots, [], its)"
  using assms by (induction its) simp_all

lemma forEach_split:
  "openTreasureChest_forEach slots its = (slots', obtained, drops) \<Longrightarrow>
     obtained = take (emptySlots slots) its \<and> drops = drop (emptySlots slots) its
     \<and> length slots' = length slots
     \<and> emptySlots slots' = emptySlots slots - length obtained"
proof (induction its arbitrary: slots slots' obtained drops)
  case Nil
  then show ?case by simp
next
  case (Cons item rest)
  show ?case
  proof (cases "findIndex (\<lambda>slot. slot = None) slots")
    case None
    then have "emptySlots slots = 0" by (simp add: findIndex_None_emptySlots)
    with Cons.prems forEach_full [OF None, of "item # rest"] show ?thesis by simp
  next
    case (Some i)
    from emptySlots_fill [OF Some, of item]
    have e: "emptySlots (slots[i := Some item]) = emptySlots slots - 1" "0 < emptySlots slots"
      by simp_all
    obtain s1 o1 d1 where r: "openTreasureChest_forEach (slots[i := Some item]) rest = (s1, o1, d1)"
      by (cases "openTreasureChest_forEach (slots[i := Some item]) rest") auto
    from Cons.prems Some r have eqs: "slots' = s1" "obtained = item # o1" "drops = d1" by simp_all
    from Cons.IH [OF r] e eqs show ?thesis
      by (cases "emptySlots slots") simp_all
  qed
qed

lemma forEach_addAll:
  "openTreasureChest_forEach (items invt) its = (slots', obtained, drops) \<Longrightarrow>
     addAll invt its = (invt\<lparr> items := slots' \<rparr>, drops)"
proof (induction its arbitrary: invt slots' obtained drops)
  case Nil
  then show ?case by simp
next
  case (Cons item rest)
  show ?case
  proof (cases "findIndex (\<lambda>slot. slot = None) (items invt)")
    case None
    obtain s1 o1 d1 where r: "openTreasureChest_forEach (items invt) rest = (s1, o1, d1)"
      by (cases "openTreasureChest_forEach (items invt) rest") auto
    from Cons.prems None r have eqs: "slots' = s1" "obtained = o1" "drops = item # d1" by simp_all
    from Cons.IH [OF r] None eqs show ?thesis by (simp add: addItem_def)
  next
    case (Some i)
    let ?invt = "invt\<lparr> items := (items invt)[i := Some item] \<rparr>"
    obtain s1 o1 d1 where r: "openTreasureChest_forEach (items ?invt) rest = (s1, o1, d1)"
      by (cases "openTreasureChest_forEach (items ?invt) rest") auto
    from Cons.prems Some r have eqs: "slots' = s1" "obtained = item # o1" "drops = d1" by simp_all
    from Cons.IH [OF r] Some eqs show ?thesis by (simp add: addItem_def)
  qed
qed

text \<open>
  C6: a chest that is already opened yields no gold, no items and no dropped items
  and leaves the combatant (and the chest) unchanged; whatever the first call
  returned, the chest it leaves is opened, so a second open is such a call. The
  first open of an unopened chest adds the chest's gold to the combatant and
  reports it; the items obtained are the first items of the chest, as many as the
  inventory had empty slots, and the rest are returned as dropped, so no item is
  lost; the inventory is the one that \<open>addItem\<close> (first empty slot) builds item by
  item, and the dropped items are those whose \<open>addItem\<close> fails.
\<close>

theorem C6_openTreasureChest:
  assumes "openTreasureChest chest c = (chest', c', res)"
  shows "(opened chest \<longrightarrow>
            res = \<lparr> got_items = [], got_gold = 0, dropped = [] \<rparr> \<and> c' = c \<and> chest' = chest)
       \<and> (\<not> opened chest \<longrightarrow>
            opened chest'
          \<and> gold c' = gold c + chest_gold chest \<and> got_gold res = chest_gold chest
          \<and> got_items res @ dropped res = chest_items chest
          \<and> got_items res = take (emptySlots (items (inventory c))) (chest_items chest)
          \<and> addAll (inventory c) (chest_items chest) = (inventory c', dropped res))
       \<and> openTreasureChest chest' c' = (chest', c', \<lparr> got_items = [], got_gold = 0, dropped = [] \<rparr>)"
proof (cases "opened chest")
  case True
  with assms show ?thesis by (auto simp: openTreasureChest_def)
next
  case False
  obtain slots obtained drops where
    r: "openTreasureChest_forEach (items (inventory c)) (chest_items chest) = (slots, obtained, drops)"
    by (cases "openTreasureChest_forEach (items (inventory c)) (chest_items chest)") auto
  from assms False r have
    ch: "chest' = chest\<lparr> opened := True \<rparr>" and
    c': "c' = c\<lparr> gold := gold c + chest_gold chest, inventory := (inventory c)\<lparr> items := slots \<rparr> \<rparr>" and
    res: "res = \<lparr> got_items = obtained, got_gold = chest_gold chest, dropped = drops \<rparr>"
    by (simp_all add: openTreasureChest_def Let_def)
  from forEach_split [OF r] have sp: "obtained = take (emptySlots (items (inventory c))) (chest_items chest)"
    "drops = drop (emptySlots (items (inventory c))) (chest_items chest)" by simp_all
  from forEach_addAll [OF r] have aa: "addAll (inventory c) (chest_items chest) = (inventory c', dropped res)"
    by (simp add: c' res)
  have again: "openTreasureChest chest' c' = (chest', c', \<lparr> got_items = [], got_gold = 0, dropped = [] \<rparr>)"
    by (simp add: openTreasureChest_def ch)
  from False ch c' res sp aa again show ?thesis by simp
qed


theorem C6_openTreasureChest_witness:
  "openTreasureChest chest0 packedA =
     (chest0\<lparr> opened := True \<rparr>,
      packedA\<lparr> gold := 65,
        inventory := \<lparr> items = [Some worn_blade, Some potion, Some potion, Some worn_blade],
                       maxSlots = 4 \<rparr> \<rparr>,
      \<lparr> got_items = [potion, worn_blade], got_gold = 15, dropped = [gem] \<rparr>)
   \<and> openTreasureChest (chest0\<lparr> opened := True \<rparr>)
       (packedA\<lparr> gold := 65,
          inventory := \<lparr> items = [Some worn_blade, Some potion, Some potion, Some worn_blade],
                         maxSlots = 4 \<rparr> \<rparr>) =
     (chest0\<lparr> opened := True \<rparr>,
      packedA\<lparr> gold := 65,
        inventory := \<lparr> items = [Some worn_blade, Some potion, Some potion, Some worn_blade],
                       maxSlots = 4 \<rparr> \<rparr>,
      \<lparr> got_items = [], got_gold = 0, dropped = [] \<rparr>)"
proof -
  have ev: "openTreasureChest chest0 packedA =
     (chest0\<lparr> opened := True \<rparr>,
      packedA\<lparr> gold := 65,
        inventory := \<lparr> items = [Some worn_blade, Some potion, Some potion, Some worn_blade],
                       maxSlots = 4 \<rparr> \<rparr>,
      \<lparr> got_items = [potion, worn_blade], got_gold = 15, dropped = [gem] \<rparr>)"
    by (simp add: openTreasureChest_def chest0_def packedA_def combatantA_def)
  from C6_openTreasureChest [OF ev] ev show ?thesis by blast
qed

section \<open>Health stays in range through processTurnEffects\<close>

lemma effectConsequence_keeps_health_range:
  assumes "0 \<le> health c" "health c \<le> maxHealth c"
    and "effect_type e \<in> {POISON, REGENERATION} \<longrightarrow> 0 \<le> power e"
  shows "0 \<le> health (fst (effectConsequence h c e e'))
       \<and> health (fst (effectConsequence h c e e')) \<le> maxHealth (fst (effectConsequence h c e e'))"
  using assms by (cases "effect_type e") (auto simp: effectConsequence_def Let_def)

lemma filter_keeps_health_range:
  assumes "0 \<le> health c" "health c \<le> maxHealth c"
    and "\<forall>e \<in> set es. effect_type e \<in> {POISON, REGENERATION} \<longrightarrow> 0 \<le> power e"
  shows "0 \<le> health (fst (processTurnEffects_filter h c es))
       \<and> health (fst (processTurnEffects_filter h c es)) \<le> maxHealth (fst (processTurnEffects_filter h c es))"
  using assms
proof (induction es arbitrary: c)
  case Nil
  then show ?case by simp
next
  case (Cons e es)
  let ?e' = "e\<lparr> duration := duration e - 1 \<rparr>"
  let ?c1 = "fst (effectConsequence h c e ?e')"
  have step: "0 \<le> health ?c1 \<and> health ?c1 \<le> maxHealth ?c1"
    using Cons.prems by (intro effectConsequence_keeps_health_range) simp_all
  have rest: "\<forall>e \<in> set es. effect_type e \<in> {POISON, REGENERATION} \<longrightarrow> 0 \<le> power e"
    using Cons.prems by simp
  have "fst (processTurnEffects_filter h c (e # es)) = fst (processTurnEffects_filter h ?c1 es)"
    by (simp add: Let_def split: prod.splits)
  with Cons.IH [of ?c1] step rest show ?case by simp
qed

text \<open>
  C7, as the specification states it, fails: \<open>power\<close> is a number and nothing keeps
  it non-negative. A poison of power -10 on a combatant at 95 of 100 health leaves
  the health at 105, above \<open>maxHealth\<close>. (A regeneration of negative power takes the
  health below 0 in the same way.)
\<close>

theorem C7_counterexample:
  "0 \<le> health antidotedA \<and> health antidotedA \<le> maxHealth antidotedA
   \<and> health (fst (processTurnEffects host0 antidotedA)) = 105
   \<and> maxHealth (fst (processTurnEffects host0 antidotedA)) = 100"
  by (simp add: processTurnEffects_def antidotedA_def combatantA_def createPoison_def
      effectConsequence_def Let_def)

text \<open>
  C7, amended: for every combatant with \<open>0 \<le> health \<le> maxHealth\<close> whose POISON and
  REGENERATION effects have non-negative power, \<open>processTurnEffects\<close> leaves
  \<open>0 \<le> health \<le> maxHealth\<close>. One poison effect sets the health to
  \<open>max 0 (health - power)\<close>, one regeneration effect (of non-negative power) to
  \<open>min maxHealth (health + power)\<close>, and one growth effect raises health and
  maxHealth by 2 each.
\<close>

theorem C7_health_range:
  assumes "0 \<le> health c" "health c \<le> maxHealth c"
    and "\<forall>e \<in> set (statusEffects c). effect_type e \<in> {POISON, REGENERATION} \<longrightarrow> 0 \<le> power e"
  shows "0 \<le> health (fst (processTurnEffects h c))
       \<and> health (fst (processTurnEffects h c)) \<le> maxHealth (fst (processTurnEffects h c))
       \<and> (effect_type e = POISON \<longrightarrow>
            health (fst (effectConsequence h c e e')) = max 0 (health c - power e) \<and>
            maxHealth (fst (effectConsequence h c e e')) = maxHealth c)
       \<and> (effect_type e = REGENERATION \<longrightarrow> 0 \<le> power e \<longrightarrow>
            health (fst (effectConsequence h c e e')) = min (maxHealth c) (health c + power e) \<and>
            maxHealth (fst (effectConsequence h c e e')) = maxHealth c)
       \<and> (effect_type e = GROWTH \<longrightarrow>
            health (fst (effectConsequence h c e e')) = health c + 2 \<and>
            maxHealth (fst (effectConsequence h c e e')) = maxHealth c + 2)"
proof -
  have "fst (processTurnEffects h c) =
      (fst (processTurnEffects_filter h c (statusEffects c)))
        \<lparr> statusEffects := fst (snd (processTurnEffects_filter h c (statusEffects c))) \<rparr>"
    by (simp add: processTurnEffects_def split: prod.splits)
  then have range: "0 \<le> health (fst (processTurnEffects h c))
       \<and> health (fst (processTurnEffects h c)) \<le> maxHealth (fst (processTurnEffects h c))"
    using filter_keeps_health_range [OF assms, of h] by simp
  have poison: "effect_type e = POISON \<longrightarrow>
            health (fst (effectConsequence h c e e')) = max 0 (health c - power e) \<and>
            maxHealth (fst (effectConsequence h c e e')) = maxHealth c"
    by (simp add: effectConsequence_def Let_def)
  have regen: "effect_type e = REGENERATION \<longrightarrow> 0 \<le> power e \<longrightarrow>
            health (fst (effectConsequence h c e e')) = min (maxHealth c) (health c + power e) \<and>
            maxHealth (fst (effectConsequence h c e e')) = maxHealth c"
    using assms(2) by (auto simp: effectConsequence_def Let_def min_def)
  have growth: "effect_type e = GROWTH \<longrightarrow>
            health (fst (effectConsequence h c e e')) = health c + 2 \<and>
            maxHealth (fst (effectConsequence h c e e')) = maxHealth c + 2"
    by (simp add: effectConsequence_def)
  from range poison regen growth show ?thesis by blast
qed

theorem C7_health_range_witness:
  "0 \<le> health afflictedA \<and> health afflictedA \<le> maxHealth afflictedA
   \<and> health (fst (processTurnEffects host0 afflictedA)) = 0
   \<and> maxHealth (fst (processTurnEffects host0 afflictedA)) = 102
   \<and> map effect_name (statusEffects (fst (processTurnEffects host0 afflictedA))) = [''Growth'', ''Poison'']"
proof -
  have hyp: "\<forall>e \<in> set (statusEffects afflictedA). effect_type e \<in> {POISON, REGENERATION} \<longrightarrow> 0 \<le> power e"
    by (simp add: afflictedA_def createRegeneration_def createGrowth_def createPoison_def createStun_def)
  have h1: "0 \<le> health afflictedA" and h2: "health afflictedA \<le> maxHealth afflictedA"
    by (simp_all add: afflictedA_def combatantA_def)
  have ev: "health (fst (processTurnEffects host0 afflictedA)) = 0
   \<and> maxHealth (fst (processTurnEffects host0 afflictedA)) = 102
   \<and> map effect_name (statusEffects (fst (processTurnEffects host0 afflictedA))) = [''Growth'', ''Poison'']"
    by (simp add: processTurnEffects_def afflictedA_def combatantA_def createRegeneration_def
        createGrowth_def createPoison_def createStun_def effectConsequence_def Let_def)
  from C7_health_range [OF h1 h2 hyp, of host0] h1 h2 ev show ?thesis by blast
qed

section \<open>Sell price\<close>

lemma floor_half_half:
  fixes v :: real
  shows "\<lfloor>of_int \<lfloor>v * 0.5\<rfloor> * (0.5::real)\<rfloor> = \<lfloor>v * 0.5 * 0.5\<rfloor>"
proof -
  have "\<lfloor>(v * 0.5) / real_of_int 2\<rfloor> = \<lfloor>v * 0.5\<rfloor> div 2"
    by (rule floor_divide_real_eq_div) simp
  moreover have "\<lfloor>real_of_int \<lfloor>v * 0.5\<rfloor> / real_of_int 2\<rfloor> = \<lfloor>real_of_int \<lfloor>v * 0.5\<rfloor>\<rfloor> div 2"
    by (rule floor_divide_real_eq_div) simp
  ultimately show ?thesis by simp
qed

lemma half_floor_bound:
  fixes v :: real
  assumes "\<bar>v\<bar> \<le> 2 ^ 54"
  shows "\<bar>\<lfloor>v * 0.5\<rfloor>\<bar> \<le> 2 ^ 53"
proof -
  have lo: "real_of_int (- (2 ^ 53)) \<le> v * 0.5" and hi: "v * 0.5 \<le> real_of_int (2 ^ 53)"
    using assms by (simp_all add: abs_le_iff)
  from lo have "- (2 ^ 53) \<le> \<lfloor>v * 0.5\<rfloor>" by (simp only: le_floor_iff)
  moreover from hi have "\<lfloor>v * 0.5\<rfloor> \<le> \<lfloor>real_of_int (2 ^ 53)\<rfloor>" by (rule floor_mono)
  then have "\<lfloor>v * 0.5\<rfloor> \<le> 2 ^ 53" by (simp only: floor_of_int)
  ultimately show ?thesis by linarith
qed

lemma three_fifths: "toDouble (3 / 5) = 5404319552844595 / 2 ^ 53"
  by (subst toDouble_eval [where n = 53]) (simp_all add: roundEven_def)

text \<open>
  C8, as the specification states it, fails: the code rounds \<open>value * 0.5\<close> down
  before it scales by the durability ratio, and rounds down again. An item of value
  7 at durability 3 of 5 sells for 1, where the single rounding down of
  \<open>value * 0.5 * durabilityRatio\<close> gives 2 (in double and in exact arithmetic).
\<close>

theorem C8_counterexample:
  "calculateSellPrice worn_blade = 1 \<and> spec_sellPrice worn_blade = 2
   \<and> max 1 \<lfloor>item_value worn_blade * 0.5 * (3 / 5)\<rfloor> = 2"
proof -
  have code: "toDouble (3 * (5404319552844595 / 2 ^ 53)) = 8106479329266892 / 2 ^ 52"
    by (subst toDouble_eval [where n = 52]) (simp_all add: roundEven_def)
  have spec: "toDouble (7 / 2 * (5404319552844595 / 2 ^ 53)) = 4728779608739021 / 2 ^ 51"
    by (subst toDouble_eval [where n = 51]) (simp_all add: roundEven_def)
  have a: "calculateSellPrice worn_blade = max 1 \<lfloor>toDouble (3 * toDouble (3 / 5))\<rfloor>"
    by (simp add: calculateSellPrice_def worn_blade_def)
  have b: "spec_sellPrice worn_blade = max 1 \<lfloor>toDouble (7 / 2 * toDouble (3 / 5))\<rfloor>"
    by (simp add: spec_sellPrice_def durabilityRatio_def worn_blade_def)
  have c: "max 1 \<lfloor>item_value worn_blade * 0.5 * (3 / 5)\<rfloor> = 2"
    by (simp add: worn_blade_def)
  show ?thesis unfolding a b three_fifths code spec using c by simp
qed

text \<open>
  C8, amended: for an item that has a durability and a non-zero maximum durability
  the sell price is
  \<open>max 1 (floor (floor (value * 0.5) * (durability / maxDurability)))\<close>, the
  quotient and the product each rounded to the nearest double; for any other item
  it is \<open>max 1 (floor (value * 0.5))\<close>, whatever the durability fields hold. For an
  item whose value is at most \<open>2^54\<close> in magnitude, full durability gives
  \<open>max 1 (floor (value * 0.5))\<close> and a durability of half the maximum gives
  \<open>max 1 (floor (value * 0.5 * 0.5))\<close>.
\<close>

theorem C8_sell_price:
  "(durability item = Some d \<and> maxDurability item = Some m \<and> m \<noteq> 0 \<longrightarrow>
      calculateSellPrice item =
        max 1 \<lfloor>toDouble (of_int \<lfloor>item_value item * 0.5\<rfloor> * toDouble (d / m))\<rfloor>)
   \<and> (durability item = None \<or> maxDurability item = None \<or> maxDurability item = Some 0 \<longrightarrow>
        calculateSellPrice item = max 1 \<lfloor>item_value item * 0.5\<rfloor>)
   \<and> (\<bar>item_value item\<bar> \<le> 2 ^ 54 \<and> durability item = Some m \<and> maxDurability item = Some m
        \<and> m \<noteq> 0 \<longrightarrow>
        calculateSellPrice item = max 1 \<lfloor>item_value item * 0.5\<rfloor>)
   \<and> (\<bar>item_value item\<bar> \<le> 2 ^ 54 \<and> durability item = Some d \<and> maxDurability item = Some (2 * d)
        \<and> d \<noteq> 0 \<longrightarrow>
        calculateSellPrice item = max 1 \<lfloor>item_value item * 0.5 * 0.5\<rfloor>)"
proof -
  let ?n = "\<lfloor>item_value item * 0.5\<rfloor>"
  have durable: "durability item = Some d \<and> maxDurability item = Some m \<and> m \<noteq> 0 \<longrightarrow>
      calculateSellPrice item = max 1 \<lfloor>toDouble (of_int ?n * toDouble (d / m))\<rfloor>"
    by (simp add: calculateSellPrice_def Let_def)
  have plain: "durability item = None \<or> maxDurability item = None \<or> maxDurability item = Some 0 \<longrightarrow>
        calculateSellPrice item = max 1 ?n"
    by (auto simp: calculateSellPrice_def Let_def split: option.splits)
  have full: "\<bar>item_value item\<bar> \<le> 2 ^ 54 \<and> durability item = Some m \<and> maxDurability item = Some m
        \<and> m \<noteq> 0 \<longrightarrow> calculateSellPrice item = max 1 ?n"
  proof
    assume a: "\<bar>item_value item\<bar> \<le> 2 ^ 54 \<and> durability item = Some m \<and> maxDurability item = Some m
        \<and> m \<noteq> 0"
    then have "toDouble (of_int ?n) = of_int ?n"
      by (intro toDouble_of_int half_floor_bound) simp
    with a show "calculateSellPrice item = max 1 ?n"
      by (simp add: calculateSellPrice_def Let_def)
  qed
  have half: "\<bar>item_value item\<bar> \<le> 2 ^ 54 \<and> durability item = Some d \<and> maxDurability item = Some (2 * d)
        \<and> d \<noteq> 0 \<longrightarrow> calculateSellPrice item = max 1 \<lfloor>item_value item * 0.5 * 0.5\<rfloor>"
  proof
    assume a: "\<bar>item_value item\<bar> \<le> 2 ^ 54 \<and> durability item = Some d \<and> maxDurability item = Some (2 * d)
        \<and> d \<noteq> 0"
    then have r: "d / (2 * d) = 1 / 2" by simp
    from a have td: "toDouble (of_int ?n * (1 / 2)) = of_int ?n * (1 / 2)"
      by (intro toDouble_half_int half_floor_bound) simp
    from a have "calculateSellPrice item = max 1 \<lfloor>toDouble (of_int ?n * toDouble (d / (2 * d)))\<rfloor>"
      by (simp add: calculateSellPrice_def Let_def)
    also have "\<dots> = max 1 \<lfloor>toDouble (of_int ?n * (1 / 2))\<rfloor>"
      by (simp only: r toDouble_half)
    also have "\<dots> = max 1 \<lfloor>of_int ?n * (1 / 2 :: real)\<rfloor>"
      by (simp only: td)
    also have "\<dots> = max 1 \<lfloor>item_value item * 0.5 * 0.5\<rfloor>"
      using floor_half_half [of "item_value item"] by simp
    finally show "calculateSellPrice item = max 1 \<lfloor>item_value item * 0.5 * 0.5\<rfloor>" .
  qed
  from durable plain full half show ?thesis by blast
qed

text \<open>The theorem at six items. The first two show the rounding of the doubles: in
  exact arithmetic \<open>22 * (15 / 22)\<close> is 15 and \<open>90 * (56 / 80)\<close> is 63.\<close>

theorem C8_sell_price_witness:
  "calculateSellPrice nicked_axe = 14
   \<and> calculateSellPrice rare_sword = 62
   \<and> calculateSellPrice (worn_blade\<lparr>durability := Some 5, item_value := 11\<rparr>) = 5
   \<and> calculateSellPrice (worn_blade\<lparr>durability := Some 5, maxDurability := Some 10, item_value := 11\<rparr>) = 2
   \<and> calculateSellPrice (worn_blade\<lparr>durability := None, item_value := 11\<rparr>) = 5
   \<and> calculateSellPrice (worn_blade\<lparr>item_value := 1\<rparr>) = 1"
proof -
  have r1: "toDouble (15 / 22) = 6141272219141585 / 2 ^ 53"
    by (subst toDouble_eval [where n = 53]) (simp_all add: roundEven_def)
  have p1: "toDouble (22 * (6141272219141585 / 2 ^ 53)) = 8444249301319679 / 2 ^ 49"
    by (subst toDouble_eval [where n = 49]) (simp_all add: roundEven_def)
  have r2: "toDouble (56 / 80) = 6305039478318694 / 2 ^ 53"
    by (subst toDouble_eval [where n = 53]) (simp_all add: roundEven_def)
  have p2: "toDouble (90 * (6305039478318694 / 2 ^ 53)) = 8866461766385663 / 2 ^ 47"
    by (subst toDouble_eval [where n = 47]) (simp_all add: roundEven_def)
  have p3: "toDouble (3 * (5404319552844595 / 2 ^ 53)) = 8106479329266892 / 2 ^ 52"
    by (subst toDouble_eval [where n = 52]) (simp_all add: roundEven_def)
  have axe: "calculateSellPrice nicked_axe = max 1 \<lfloor>toDouble (22 * toDouble (15 / 22))\<rfloor>"
    using C8_sell_price [of nicked_axe 15 22] by (simp add: nicked_axe_def worn_blade_def)
  have sword: "calculateSellPrice rare_sword = max 1 \<lfloor>toDouble (90 * toDouble (56 / 80))\<rfloor>"
    using C8_sell_price [of rare_sword 56 80] by (simp add: rare_sword_def)
  have full: "calculateSellPrice (worn_blade\<lparr>durability := Some 5, item_value := 11\<rparr>) = 5"
    using C8_sell_price [of "worn_blade\<lparr>durability := Some 5, item_value := 11\<rparr>" 5 5]
    by (simp add: worn_blade_def)
  have half: "calculateSellPrice
      (worn_blade\<lparr>durability := Some 5, maxDurability := Some 10, item_value := 11\<rparr>) = 2"
    using C8_sell_price
      [of "worn_blade\<lparr>durability := Some 5, maxDurability := Some 10, item_value := 11\<rparr>" 5 10]
    by (simp add: worn_blade_def)
  have plain: "calculateSellPrice (worn_blade\<lparr>durability := None, item_value := 11\<rparr>) = 5"
    using C8_sell_price [of "worn_blade\<lparr>durability := None, item_value := 11\<rparr>"]
    by (simp add: worn_blade_def)
  have one: "calculateSellPrice (worn_blade\<lparr>item_value := 1\<rparr>) = 1"
    using C8_sell_price [of "worn_blade\<lparr>item_value := 1\<rparr>" 3 5]
    by (simp add: worn_blade_def three_fifths)
  show ?thesis unfolding axe sword r1 p1 r2 p2 using full half plain one by simp
qed

section \<open>Scaling an enemy to a level\<close>








section \<open>Defending twice\<close>

text \<open>
  C10: \<open>handleDefend\<close> appends a new effect with the fixed id \<open>defend-boost\<close>, type
  ENCHANT_DEFENSE, duration 1 and power \<open>floor (defense * 0.5)\<close> to the list of the
  combatant whose turn it is, whatever the list holds. After two defends the list
  ends with two such effects, and the defense term of the damage formula
  (\<open>totalDefense\<close>) has grown by twice that power. \<open>applyEffect\<close>, the stacking rule
  of the ledger, would have kept a single effect.
\<close>

theorem C10_defend_stacks:
  "statusEffects (currentOf (handleDefend h s)) =
     statusEffects (currentOf s) @ [defendBoost (currentOf s)]
   \<and> defendBoost (currentOf s) =
       \<lparr> effect_id = ''defend-boost'', effect_name = ''Defensive Stance'',
         effect_type = ENCHANT_DEFENSE, duration = 1,
         power = of_int \<lfloor>defense (currentOf s) * 0.5\<rfloor>,
         effect_description = ''Increased defense from defending'' \<rparr>
   \<and> statusEffects (currentOf (handleDefend h (handleDefend h s))) =
       statusEffects (currentOf s) @ [defendBoost (currentOf s), defendBoost (currentOf s)]
   \<and> totalDefense (currentOf (handleDefend h (handleDefend h s))) =
       totalDefense (currentOf s) + 2 * of_int \<lfloor>defense (currentOf s) * 0.5\<rfloor>
   \<and> statusEffects (applyEffect (applyEffect (c\<lparr> statusEffects := [] \<rparr>) (defendBoost c))
         (defendBoost c)) = [defendBoost c]"
proof -
  let ?c = "currentOf s"
  let ?b = "defendBoost ?c"
  have one: "statusEffects (currentOf (handleDefend h s)) = statusEffects ?c @ [?b]"
    by (simp add: handleDefend_current)
  have b: "?b = \<lparr> effect_id = ''defend-boost'', effect_name = ''Defensive Stance'',
         effect_type = ENCHANT_DEFENSE, duration = 1,
         power = of_int \<lfloor>defense ?c * 0.5\<rfloor>,
         effect_description = ''Increased defense from defending'' \<rparr>"
    by (simp add: defendBoost_def)
  have two: "statusEffects (currentOf (handleDefend h (handleDefend h s))) = statusEffects ?c @ [?b, ?b]"
    by (simp add: handleDefend_current defendBoost_def)
  have inv: "inventory (currentOf (handleDefend h (handleDefend h s))) = inventory ?c"
    and df: "defense (currentOf (handleDefend h (handleDefend h s))) = defense ?c"
    by (simp_all add: handleDefend_current)
  have "totalDefense (currentOf (handleDefend h (handleDefend h s))) =
       totalDefense ?c + enchantSum ENCHANT_DEFENSE (?c\<lparr> statusEffects := [?b, ?b] \<rparr>)"
    using inv df two by (rule totalDefense_more_effects)
  then have tot: "totalDefense (currentOf (handleDefend h (handleDefend h s))) =
       totalDefense ?c + 2 * of_int \<lfloor>defense ?c * 0.5\<rfloor>"
    by (simp add: enchantSum_def defendBoost_def)
  have ledger: "statusEffects (applyEffect (applyEffect (c\<lparr> statusEffects := [] \<rparr>) (defendBoost c))
         (defendBoost c)) = [defendBoost c]"
    by (simp add: applyEffect_def defendBoost_def sameEffect_def replaceIfStronger_def)
  from one b two tot ledger show ?thesis by blast
qed

theorem C10_defend_stacks_witness:
  "statusEffects (currentOf (handleDefend host0 (handleDefend host0 encounterAB))) =
     [defendBoost combatantA, defendBoost combatantA]
   \<and> StatusEffect.power (defendBoost combatantA) = 2
   \<and> totalDefense (currentOf encounterAB) = 5
   \<and> totalDefense (currentOf (handleDefend host0 (handleDefend host0 encounterAB))) = 9
   \<and> statusEffects (player twiceDefended) = [defendBoost combatantA, defendBoost combatantA]
   \<and> turn twiceDefended = ENEMY \<and> phase twiceDefended = ATTACK \<and> isActive twiceDefended"
proof -
  have cur: "currentOf encounterAB = combatantA"
    by (simp add: currentOf_def encounterAB_def)
  have p: "StatusEffect.power (defendBoost combatantA) = 2"
    by (simp add: defendBoost_def combatantA_def)
  have t: "totalDefense combatantA = 5"
    by (simp add: totalDefense_def combatantA_def addStat_def optionalStat_def enchantSum_def)
  have d: "defense combatantA = 5" "statusEffects combatantA = []"
    by (simp_all add: combatantA_def)
  have run: "statusEffects (player twiceDefended) = [defendBoost combatantA, defendBoost combatantA]
   \<and> turn twiceDefended = ENEMY \<and> phase twiceDefended = ATTACK \<and> isActive twiceDefended"
    by code_simp
  from C10_defend_stacks [of host0 encounterAB combatantA] p t run show ?thesis
    by (simp add: cur d)
qed

end
